theory Spec2Isabelle
  imports Complex_Main "HOL-Library.AList"
begin

section \<open>Python values, exceptions and strings\<close>

text \<open>
  The services exchange JSON-like values (tool results, LLM responses, streaming chunks).
  They are modelled by \<open>pyval\<close>; a Python \<open>dict\<close> is an association list in insertion
  order, a \<open>float\<close> is the real number it denotes. Tool parameters, which the classifiers
  only ever fill with strings and integers, have the smaller type \<open>param\<close>.
  A Python \<open>str\<close> is a \<open>string\<close> with one \<open>char\<close> per code point (code points below 256).
\<close>

datatype pyval =
    PNone
  | PBool bool
  | PInt int
  | PFloat real
  | PStr string
  | PList "pyval list"
  | PDict "(string \<times> pyval) list"

datatype param = SParam string | IParam int

text \<open>
  Exceptions are values. The three classes of \<open>app/core/exceptions.py\<close> keep their
  attribute (\<open>server_name\<close>, \<open>status_code\<close>, \<open>session_id\<close>); every other subclass of
  \<open>Exception\<close> is \<open>PyException cls msg\<close> with its class name and \<open>str(e)\<close>.
\<close>

datatype exn =
    MCPServerError string "string option"
  | GeminiAPIError string "int option"
  | AgentSessionError string "string option"
  | PyException string string

fun str_exn :: "exn \<Rightarrow> string" where
  "str_exn (MCPServerError m _) = m"
| "str_exn (GeminiAPIError m _) = m"
| "str_exn (AgentSessionError m _) = m"
| "str_exn (PyException _ m) = m"

text \<open>Truthiness, as \<open>if x\<close>, \<open>not x\<close> and \<open>x and y\<close> test it.\<close>

fun truthy :: "pyval \<Rightarrow> bool" where
  "truthy PNone = False"
| "truthy (PBool b) = b"
| "truthy (PInt i) = (i \<noteq> 0)"
| "truthy (PFloat r) = (r \<noteq> 0)"
| "truthy (PStr s) = (s \<noteq> [])"
| "truthy (PList xs) = (xs \<noteq> [])"
| "truthy (PDict kvs) = (kvs \<noteq> [])"

fun truthy_str_opt :: "string option \<Rightarrow> bool" where
  "truthy_str_opt None = False"
| "truthy_str_opt (Some s) = (s \<noteq> [])"

text \<open>
  \<open>str.lower()\<close> on code points below 256: the ASCII capitals and the Latin-1 capitals
  (all of 192..222 but the multiplication sign 215) move up by 32.
\<close>

definition lower_char :: "char \<Rightarrow> char" where
  "lower_char c =
     (let n = (of_char c :: nat)
      in if (65 \<le> n \<and> n \<le> 90) \<or> (192 \<le> n \<and> n \<le> 222 \<and> n \<noteq> 215)
         then char_of (n + 32) else c)"

definition lower :: "string \<Rightarrow> string" where
  "lower s = map lower_char s"

text \<open>
  \<open>str.strip()\<close> removes leading and trailing white space; below 256 the white-space
  code points are 9..13, 28..32, 133 and 160.
\<close>

definition isspace :: "char \<Rightarrow> bool" where
  "isspace c =
     (let n = (of_char c :: nat)
      in (9 \<le> n \<and> n \<le> 13) \<or> (28 \<le> n \<and> n \<le> 32) \<or> n = 133 \<or> n = 160)"

definition strip :: "string \<Rightarrow> string" where
  "strip s = rev (dropWhile isspace (rev (dropWhile isspace s)))"

text \<open>\<open>s.startswith(g)\<close> and the substring test \<open>w in s\<close>.\<close>

fun startswith :: "string \<Rightarrow> string \<Rightarrow> bool" where
  "startswith s [] = True"
| "startswith [] (g # gs) = False"
| "startswith (c # cs) (g # gs) = (c = g \<and> startswith cs gs)"

fun contains :: "string \<Rightarrow> string \<Rightarrow> bool" where
  "contains w [] = (w = [])"
| "contains w (c # cs) = (startswith (c # cs) w \<or> contains w cs)"

text \<open>\<open>any(word in s for word in words)\<close>.\<close>

definition any_in :: "string list \<Rightarrow> string \<Rightarrow> bool" where
  "any_in words s = list_ex (\<lambda>w. contains w s) words"

text \<open>Decimal rendering of integers, as \<open>str(n)\<close> and f-strings give it.\<close>

fun str_nat :: "nat \<Rightarrow> string" where
  "str_nat n =
     (if n < 10 then [char_of (48 + n)]
      else str_nat (n div 10) @ [char_of (48 + n mod 10)])"

definition str_int :: "int \<Rightarrow> string" where
  "str_int i = (if i < 0 then CHR ''-'' # str_nat (nat (- i)) else str_nat (nat i))"

fun str_param :: "param \<Rightarrow> string" where
  "str_param (SParam s) = s"
| "str_param (IParam i) = str_int i"

section \<open>Schemas (\<open>app/schemas/agent.py\<close>)\<close>

text \<open>
  \<open>QueryType\<close> has exactly these six members in \<open>app/schemas/agent.py\<close>; the services
  also mention \<open>QueryType.COMPLIANCE_AUDIT\<close>, which the enum does not define, so that
  evaluating that attribute raises \<open>AttributeError\<close>.
\<close>

datatype QueryType =
    MARKET_ANALYSIS
  | PRICE_PREDICTION
  | NEWS_SENTIMENT
  | ON_CHAIN_ANALYSIS
  | GENERAL_CRYPTO
  | TRADING_ADVICE

text \<open>
  Clock readings (\<open>datetime.utcnow()\<close>: \<open>last_updated\<close>, \<open>timestamp\<close>, \<open>created_at\<close>,
  \<open>processing_time_ms\<close>, ...) are left out of the records: no operation below
  branches on them. Random identifiers (\<open>uuid4().hex\<close>) are parameters.
\<close>

record ToolCall =
  tool_name :: string
  parameters :: "(string \<times> param) list"
  result :: pyval
  execution_time_ms :: "int option"
  error :: "string option"

section \<open>Confidence estimator (\<open>_calculate_confidence_score\<close>)\<close>

text \<open>
  \<open>successful_tools = sum(1 for tool in tools_used if not tool.error)\<close>: a call counts as
  successful when its \<open>error\<close> is \<open>None\<close> or the empty string.
\<close>

definition successful_tools :: "ToolCall list \<Rightarrow> nat" where
  "successful_tools tools_used =
     length (filter (\<lambda>t. \<not> truthy_str_opt (error t)) tools_used)"

text \<open>The weight table of \<open>agent_service.py\<close>; its \<open>.get\<close> default 0.7 is never reached.\<close>

fun type_confidence :: "QueryType \<Rightarrow> real" where
  "type_confidence MARKET_ANALYSIS = 9/10"
| "type_confidence PRICE_PREDICTION = 7/10"
| "type_confidence NEWS_SENTIMENT = 85/100"
| "type_confidence ON_CHAIN_ANALYSIS = 9/10"
| "type_confidence GENERAL_CRYPTO = 8/10"
| "type_confidence TRADING_ADVICE = 6/10"

text \<open>
  The weight table of \<open>agent_service_mvp.py\<close>; \<open>ON_CHAIN_ANALYSIS\<close> is not a key there and
  takes the \<open>.get\<close> default 0.70.
\<close>

fun type_confidence_mvp :: "QueryType \<Rightarrow> real" where
  "type_confidence_mvp MARKET_ANALYSIS = 85/100"
| "type_confidence_mvp PRICE_PREDICTION = 75/100"
| "type_confidence_mvp NEWS_SENTIMENT = 80/100"
| "type_confidence_mvp GENERAL_CRYPTO = 70/100"
| "type_confidence_mvp TRADING_ADVICE = 65/100"
| "type_confidence_mvp ON_CHAIN_ANALYSIS = 70/100"

definition tool_success_rate :: "ToolCall list \<Rightarrow> int \<Rightarrow> real" where
  "tool_success_rate tools_used required_tools =
     (if required_tools > 0
      then real (successful_tools tools_used) / real_of_int required_tools
      else 1)"

definition calculate_confidence_score :: "ToolCall list \<Rightarrow> int \<Rightarrow> QueryType \<Rightarrow> real" where
  "calculate_confidence_score tools_used required_tools query_type =
     (if required_tools = 0 then 7/10
      else min (95/100) (tool_success_rate tools_used required_tools * type_confidence query_type))"

definition calculate_confidence_score_mvp :: "ToolCall list \<Rightarrow> int \<Rightarrow> QueryType \<Rightarrow> real" where
  "calculate_confidence_score_mvp tools_used required_tools query_type =
     (if required_tools = 0 then 7/10
      else min (90/100)
             (tool_success_rate tools_used required_tools * type_confidence_mvp query_type))"

section \<open>Query classifier (\<open>_analyze_query\<close>)\<close>

text \<open>
  A tool descriptor is the dict \<open>{"server": .., "tool": .., "parameters": {..}}\<close>; the
  classifier's result is the dict \<open>{"type": .., "tools": [..], "confidence": ..}\<close>.
\<close>

record tool_info =
  server :: string
  tool :: string
  tool_parameters :: "(string \<times> param) list"

record QueryAnalysis =
  qtype :: QueryType
  tools :: "tool_info list"
  confidence :: real

subsection \<open>\<open>AgentServiceMVP._analyze_query\<close> (agent_service_mvp.py)\<close>

definition greetings :: "string list" where
  "greetings = [''hi'', ''hello'', ''hey'', ''greetings'', ''good morning'', ''good afternoon'',
     ''good evening'', ''howdy'', ''sup'', ''what's up'']"

definition price_keywords_mvp :: "string list" where
  "price_keywords_mvp =
     [''price'', ''cost'', ''value'', ''$'', ''bitcoin'', ''btc'', ''ethereum'', ''eth'']"

definition sentiment_keywords_mvp :: "string list" where
  "sentiment_keywords_mvp = [''sentiment'', ''fear'', ''greed'', ''mood'', ''market'', ''feeling'']"

definition news_keywords_mvp :: "string list" where
  "news_keywords_mvp = [''news'', ''headlines'', ''events'', ''happening'', ''latest'']"

definition analysis_keywords_mvp :: "string list" where
  "analysis_keywords_mvp = [''analysis'', ''analyze'', ''market'', ''trend'', ''technical'']"

definition coin_price :: "string \<Rightarrow> tool_info" where
  "coin_price symbol =
     \<lparr>server = ''coingecko'', tool = ''get_coin_price'',
      tool_parameters = [(''symbol'', SParam symbol)]\<rparr>"

definition ticker :: "string \<Rightarrow> tool_info" where
  "ticker pair =
     \<lparr>server = ''ccxt'', tool = ''get_ticker'', tool_parameters = [(''symbol'', SParam pair)]\<rparr>"

definition fear_greed_index :: tool_info where
  "fear_greed_index =
     \<lparr>server = ''feargreed'', tool = ''get_fear_greed_index'', tool_parameters = []\<rparr>"

definition news :: "string \<Rightarrow> tool_info" where
  "news flt =
     \<lparr>server = ''cryptopanic'', tool = ''get_news'', tool_parameters = [(''filter'', SParam flt)]\<rparr>"

definition market_data :: tool_info where
  "market_data =
     \<lparr>server = ''coingecko'', tool = ''get_market_data'', tool_parameters = []\<rparr>"

text \<open>The coin symbol of the price branch: the \<open>if/elif\<close> chain over the coin names.\<close>

definition extract_symbol :: "string \<Rightarrow> string" where
  "extract_symbol query_lower =
     (if any_in [''ethereum'', ''eth''] query_lower then ''ETH''
      else if any_in [''cardano'', ''ada''] query_lower then ''ADA''
      else if any_in [''solana'', ''sol''] query_lower then ''SOL''
      else ''BTC'')"

text \<open>The tool set used "if no specific tools identified".\<close>

definition default_tools :: "tool_info list" where
  "default_tools = [coin_price ''BTC'', fear_greed_index]"

text \<open>
  Each keyword branch overwrites \<open>query_type\<close> and extends \<open>tools\<close>; the branches run in
  the source's order on the pair \<open>(query_type, tools)\<close>.
\<close>

definition price_branch_mvp :: "string \<Rightarrow> QueryType \<times> tool_info list \<Rightarrow> QueryType \<times> tool_info list" where
  "price_branch_mvp query_lower st =
     (if any_in price_keywords_mvp query_lower
      then (PRICE_PREDICTION,
            snd st @ [coin_price (extract_symbol query_lower),
                      ticker (extract_symbol query_lower @ ''/USDT'')])
      else st)"

definition sentiment_branch_mvp :: "string \<Rightarrow> QueryType \<times> tool_info list \<Rightarrow> QueryType \<times> tool_info list" where
  "sentiment_branch_mvp query_lower st =
     (if any_in sentiment_keywords_mvp query_lower
      then (MARKET_ANALYSIS,
            snd st
            @ (if any_in [''bitcoin'', ''btc''] query_lower \<and> any_in [''ethereum'', ''eth''] query_lower
               then [coin_price ''BTC'', coin_price ''ETH'', ticker ''ETH/USDT'']
               else [])
            @ [fear_greed_index, news ''rising''])
      else st)"

definition news_branch_mvp :: "string \<Rightarrow> QueryType \<times> tool_info list \<Rightarrow> QueryType \<times> tool_info list" where
  "news_branch_mvp query_lower st =
     (if any_in news_keywords_mvp query_lower
      then (NEWS_SENTIMENT, snd st @ [news ''hot''])
      else st)"

definition analysis_branch_mvp :: "string \<Rightarrow> QueryType \<times> tool_info list \<Rightarrow> QueryType \<times> tool_info list" where
  "analysis_branch_mvp query_lower st =
     (if any_in analysis_keywords_mvp query_lower
      then (MARKET_ANALYSIS, snd st @ [market_data, fear_greed_index])
      else st)"

definition is_greeting :: "string \<Rightarrow> bool" where
  "is_greeting query_lower =
     (query_lower \<in> set greetings \<or> list_ex (\<lambda>g. startswith query_lower g) greetings)"

definition analyze_query_mvp :: "string \<Rightarrow> QueryAnalysis" where
  "analyze_query_mvp query =
     (let query_lower = strip (lower query)
      in if is_greeting query_lower
         then \<lparr>qtype = GENERAL_CRYPTO, tools = [], confidence = 9/10\<rparr>
         else
           let st = analysis_branch_mvp query_lower
                      (news_branch_mvp query_lower
                        (sentiment_branch_mvp query_lower
                          (price_branch_mvp query_lower (GENERAL_CRYPTO, []))))
           in \<lparr>qtype = fst st,
               tools = (if snd st = [] then default_tools else snd st),
               confidence = 8/10\<rparr>)"

subsection \<open>\<open>AgentService._analyze_query\<close> (agent_service.py)\<close>

definition price_keywords :: "string list" where
  "price_keywords = [''price'', ''cost'', ''value'', ''$'']"

definition sentiment_keywords :: "string list" where
  "sentiment_keywords = [''sentiment'', ''fear'', ''greed'', ''mood'']"

definition news_keywords :: "string list" where
  "news_keywords = [''news'', ''headlines'', ''events'']"

definition whale_keywords :: "string list" where
  "whale_keywords = [''whale'', ''large'', ''transactions'', ''on-chain'']"

definition compliance_keywords :: "string list" where
  "compliance_keywords = [''audit'', ''compliance'', ''contract'', ''smart contract'',
     ''regulatory'', ''aml'', ''gdpr'', ''kyc'']"

definition whale_alerts :: tool_info where
  "whale_alerts =
     \<lparr>server = ''whaletracker'', tool = ''get_whale_alerts'',
      tool_parameters = [(''min_value'', IParam 1000000)]\<rparr>"

definition price_branch :: "string \<Rightarrow> QueryType \<times> tool_info list \<Rightarrow> QueryType \<times> tool_info list" where
  "price_branch query_lower st =
     (if any_in price_keywords query_lower
      then (PRICE_PREDICTION, snd st @ [coin_price ''bitcoin''])
      else st)"

definition sentiment_branch :: "string \<Rightarrow> QueryType \<times> tool_info list \<Rightarrow> QueryType \<times> tool_info list" where
  "sentiment_branch query_lower st =
     (if any_in sentiment_keywords query_lower
      then (NEWS_SENTIMENT, snd st @ [fear_greed_index, news ''rising''])
      else st)"

definition news_branch :: "string \<Rightarrow> QueryType \<times> tool_info list \<Rightarrow> QueryType \<times> tool_info list" where
  "news_branch query_lower st =
     (if any_in news_keywords query_lower
      then (NEWS_SENTIMENT, snd st @ [news ''hot''])
      else st)"

definition whale_branch :: "string \<Rightarrow> QueryType \<times> tool_info list \<Rightarrow> QueryType \<times> tool_info list" where
  "whale_branch query_lower st =
     (if any_in whale_keywords query_lower
      then (ON_CHAIN_ANALYSIS, snd st @ [whale_alerts])
      else st)"

text \<open>
  The compliance branch starts with \<open>query_type = QueryType.COMPLIANCE_AUDIT\<close>. The enum
  has no such member, so the assignment raises \<open>AttributeError\<close> before the contract code
  or the standards are extracted; the classifier has no handler for it.
\<close>

definition analyze_query :: "string \<Rightarrow> exn + QueryAnalysis" where
  "analyze_query query =
     (let query_lower = lower query;
          st = whale_branch query_lower
                 (news_branch query_lower
                   (sentiment_branch query_lower
                     (price_branch query_lower (GENERAL_CRYPTO, []))))
      in if any_in compliance_keywords query_lower
         then Inl (PyException ''AttributeError'' ''COMPLIANCE_AUDIT'')
         else Inr \<lparr>qtype = fst st, tools = snd st, confidence = 8/10\<rparr>)"

section \<open>Tool dispatch\<close>

text \<open>
  A dispatcher is what \<open>mcp_manager.call_tool(server, tool, parameters)\<close> does: it
  returns a value or raises, and it may change the world (\<open>'s\<close>: the manager's records,
  the remote servers, the random generator), so that two identical calls may differ.
\<close>

type_synonym 's dispatcher =
  "'s \<Rightarrow> string \<Rightarrow> string \<Rightarrow> (string \<times> param) list \<Rightarrow> (exn + pyval) \<times> 's"

text \<open>\<open>d.update(other)\<close>: \<open>d[k] = v\<close> for each item of \<open>other\<close>, in order.\<close>

definition dict_update :: "(string \<times> 'v) list \<Rightarrow> (string \<times> 'v) list \<Rightarrow> (string \<times> 'v) list" where
  "dict_update d other = foldl (\<lambda>acc kv. AList.update (fst kv) (snd kv) acc) d other"

subsection \<open>\<open>MCPManagerMVP.call_tool\<close> (mcp_manager_mvp.py)\<close>

record MockMCPServer =
  mock_name :: string
  mock_status :: string
  mock_description :: string
  mock_tools :: "(string \<times> string) list"

text \<open>
  \<open>_generate_mock_response\<close> draws random numbers; it is the parameter \<open>gen\<close>, which
  answers with the response dict or with the exception it raised, and moves the random
  state \<open>'s\<close>. \<open>call_tool\<close> of the MVP manager has no \<open>raise\<close>: an unknown server and a
  failed generation both return a dict with an \<open>"error"\<close> key. The metadata added to a
  generated response are \<open>server\<close>, \<open>tool\<close> and \<open>mock_data\<close> (and a \<open>timestamp\<close>, a clock
  reading, left out).
\<close>

definition call_tool_mvp ::
  "(string \<rightharpoonup> MockMCPServer)
   \<Rightarrow> ('s \<Rightarrow> string \<Rightarrow> string \<Rightarrow> (string \<times> param) list \<Rightarrow> (exn + (string \<times> pyval) list) \<times> 's)
   \<Rightarrow> 's \<Rightarrow> string \<Rightarrow> string \<Rightarrow> (string \<times> param) list \<Rightarrow> pyval \<times> 's" where
  "call_tool_mvp servers gen s server_name tname params =
     (case servers server_name of
        None \<Rightarrow>
          (PDict [(''error'', PStr (''Server '' @ server_name @ '' not available'')),
                  (''mock_response'', PBool True)], s)
      | Some srv \<Rightarrow>
          (case gen s server_name tname params of
             (Inr response, s') \<Rightarrow>
               (PDict (dict_update response
                        [(''server'', PStr server_name), (''tool'', PStr tname),
                         (''mock_data'', PBool True)]), s')
           | (Inl e, s') \<Rightarrow>
               (PDict [(''error'', PStr (str_exn e)), (''server'', PStr server_name),
                       (''tool'', PStr tname), (''mock_data'', PBool True)], s')))"

text \<open>The answer of the MVP manager for a server it does not know.\<close>

definition unknown_server_result :: "string \<Rightarrow> pyval" where
  "unknown_server_result sn =
     PDict [(''error'', PStr (''Server '' @ sn @ '' not available'')),
            (''mock_response'', PBool True)]"

text \<open>The MVP manager as the agent sees it: a dispatcher that always returns.\<close>

definition mvp_dispatcher ::
  "(string \<rightharpoonup> MockMCPServer)
   \<Rightarrow> ('s \<Rightarrow> string \<Rightarrow> string \<Rightarrow> (string \<times> param) list \<Rightarrow> (exn + (string \<times> pyval) list) \<times> 's)
   \<Rightarrow> 's dispatcher" where
  "mvp_dispatcher servers gen s server_name tname params =
     (case call_tool_mvp servers gen s server_name tname params of (v, s') \<Rightarrow> (Inr v, s'))"

subsection \<open>\<open>MCPManager.call_tool\<close> (mcp_manager.py)\<close>

text \<open>
  A server record keeps what \<open>call_tool\<close> reads: its name, whether its config has a
  \<open>"url"\<close> key (HTTP server) or not (process server), its status and its error count.
  The transport (\<open>_call_http_tool\<close>: POST, \<open>raise_for_status\<close>, \<open>json()\<close>;
  \<open>_call_process_tool\<close>: write to stdin, read a line, \<open>json.loads\<close>) is the parameter
  \<open>transport\<close>: given the world, the server, the tool and the parameters it answers with
  the decoded result or with the exception raised. The world \<open>'w\<close> is everything outside
  the process; the manager record carries it, together with a count of the transport
  calls made, so that a call that returns the manager as it was has attempted no I/O.
\<close>

record MCPServer =
  mcp_name :: string
  mcp_url :: "string option"
  mcp_status :: string
  mcp_error_count :: int

record 'w MCPManager =
  servers :: "string \<rightharpoonup> MCPServer"
  world :: 'w
  io_calls :: nat

definition call_tool ::
  "('w \<Rightarrow> MCPServer \<Rightarrow> string \<Rightarrow> (string \<times> param) list \<Rightarrow> (exn + pyval) \<times> 'w)
   \<Rightarrow> 'w MCPManager dispatcher" where
  "call_tool transport m server_name tname params =
     (case servers m server_name of
        None \<Rightarrow> (Inl (MCPServerError (''Server '' @ server_name @ '' not found'') (Some server_name)), m)
      | Some srv \<Rightarrow>
          if mcp_status srv \<noteq> ''running''
          then (Inl (MCPServerError (''Server '' @ server_name @ '' is not running'')
                      (Some server_name)), m)
          else
            (case transport (world m) srv tname params of
               (Inr v, w') \<Rightarrow> (Inr v, m\<lparr>world := w', io_calls := io_calls m + 1\<rparr>)
             | (Inl e, w') \<Rightarrow>
                 (Inl (MCPServerError (''Tool call failed: '' @ str_exn e) (Some server_name)),
                  m\<lparr>servers := (servers m)(server_name \<mapsto>
                                  srv\<lparr>mcp_error_count := mcp_error_count srv + 1\<rparr>),
                    world := w', io_calls := io_calls m + 1\<rparr>)))"

section \<open>The tool loop of \<open>process_query\<close>\<close>

record DataSource =
  ds_name :: string
  ds_type :: string
  reliability_score :: real

record loop_state =
  tools_used :: "ToolCall list"
  data_sources :: "DataSource list"
  tool_results :: "(string \<times> pyval) list"

definition empty_loop_state :: loop_state where
  "empty_loop_state = \<lparr>tools_used = [], data_sources = [], tool_results = []\<rparr>"

text \<open>
  \<open>str.title()\<close> on the server names, which are lower-case ASCII words: the first letter
  of each run of letters is capitalised.
\<close>

definition is_ascii_lower :: "char \<Rightarrow> bool" where
  "is_ascii_lower c = (97 \<le> (of_char c :: nat) \<and> (of_char c :: nat) \<le> 122)"

definition is_ascii_upper :: "char \<Rightarrow> bool" where
  "is_ascii_upper c = (65 \<le> (of_char c :: nat) \<and> (of_char c :: nat) \<le> 90)"

fun title_from :: "bool \<Rightarrow> string \<Rightarrow> string" where
  "title_from prev_cased [] = []"
| "title_from prev_cased (c # cs) =
     (if is_ascii_lower c
      then (if prev_cased then c else char_of ((of_char c :: nat) - 32)) # title_from True cs
      else if is_ascii_upper c
      then (if prev_cased then char_of ((of_char c :: nat) + 32) else c) # title_from True cs
      else c # title_from False cs)"

definition title :: "string \<Rightarrow> string" where
  "title s = title_from False s"

definition tool_call_name :: "tool_info \<Rightarrow> string" where
  "tool_call_name ti = server ti @ ''.'' @ tool ti"

definition data_source :: "tool_info \<Rightarrow> DataSource" where
  "data_source ti = \<lparr>ds_name = title (server ti), ds_type = ''mcp'', reliability_score = 9/10\<rparr>"

subsection \<open>agent_service_mvp.py, lines 68 to 113\<close>

text \<open>
  "Create unique key for tool results to avoid overwrites": the key is
  \<open>get_coin_price_<symbol>\<close> for the tool \<open>get_coin_price\<close> and the bare tool name for
  every other tool.
\<close>

definition tool_key_mvp :: "tool_info \<Rightarrow> string" where
  "tool_key_mvp ti =
     (if tool ti = ''get_coin_price''
      then ''get_coin_price_'' @
           (case map_of (tool_parameters ti) ''symbol'' of
              None \<Rightarrow> ''BTC''
            | Some symbol \<Rightarrow> str_param symbol)
      else tool ti)"

text \<open>
  One iteration: the \<open>try\<close> body on success; on any exception the \<open>except\<close> branch
  appends a \<open>ToolCall\<close> carrying \<open>error = str(e)\<close> and stores no result.
\<close>

definition record_result_mvp :: "loop_state \<Rightarrow> tool_info \<Rightarrow> exn + pyval \<Rightarrow> loop_state" where
  "record_result_mvp st ti outcome =
     (case outcome of
        Inr tool_result \<Rightarrow>
          \<lparr>tools_used = tools_used st @
             [\<lparr>tool_name = tool_call_name ti, parameters = tool_parameters ti,
               result = tool_result, execution_time_ms = Some 50, error = None\<rparr>],
           data_sources = data_sources st @ [data_source ti],
           tool_results = AList.update (tool_key_mvp ti) tool_result (tool_results st)\<rparr>
      | Inl e \<Rightarrow>
          st\<lparr>tools_used := tools_used st @
             [\<lparr>tool_name = tool_call_name ti, parameters = tool_parameters ti,
               result = PNone, execution_time_ms = None, error = Some (str_exn e)\<rparr>]\<rparr>)"

fun tool_loop_mvp :: "'s dispatcher \<Rightarrow> tool_info list \<Rightarrow> loop_state \<times> 's \<Rightarrow> loop_state \<times> 's" where
  "tool_loop_mvp call [] (st, s) = (st, s)"
| "tool_loop_mvp call (ti # tis) (st, s) =
     (case call s (server ti) (tool ti) (tool_parameters ti) of
        (outcome, s') \<Rightarrow> tool_loop_mvp call tis (record_result_mvp st ti outcome, s'))"

subsection \<open>agent_service.py, lines 107 to 146\<close>

text \<open>
  The key is the bare tool name. Both \<open>except\<close> branches \<open>continue\<close>: "don't add failed
  tool to results", so a failed call leaves no \<open>ToolCall\<close> at all.
\<close>

definition record_result :: "loop_state \<Rightarrow> tool_info \<Rightarrow> exn + pyval \<Rightarrow> loop_state" where
  "record_result st ti outcome =
     (case outcome of
        Inr tool_result \<Rightarrow>
          \<lparr>tools_used = tools_used st @
             [\<lparr>tool_name = tool_call_name ti, parameters = tool_parameters ti,
               result = tool_result, execution_time_ms = Some 100, error = None\<rparr>],
           data_sources = data_sources st @ [data_source ti],
           tool_results = AList.update (tool ti) tool_result (tool_results st)\<rparr>
      | Inl e \<Rightarrow> st)"

fun tool_loop :: "'s dispatcher \<Rightarrow> tool_info list \<Rightarrow> loop_state \<times> 's \<Rightarrow> loop_state \<times> 's" where
  "tool_loop call [] (st, s) = (st, s)"
| "tool_loop call (ti # tis) (st, s) =
     (case call s (server ti) (tool ti) (tool_parameters ti) of
        (outcome, s') \<Rightarrow> tool_loop call tis (record_result st ti outcome, s'))"

text \<open>
  What the dispatcher answered to each descriptor, in order: the reference against which
  the two loops are stated.
\<close>

fun outcomes :: "'s dispatcher \<Rightarrow> tool_info list \<Rightarrow> 's \<Rightarrow> (tool_info \<times> (exn + pyval)) list" where
  "outcomes call [] s = []"
| "outcomes call (ti # tis) s =
     (case call s (server ti) (tool ti) (tool_parameters ti) of
        (outcome, s') \<Rightarrow> (ti, outcome) # outcomes call tis s')"

text \<open>
  The \<open>ToolCall\<close> the MVP loop appends for one answer, and the mapping a loop builds from
  a list of answers: only the values of the calls that returned are stored, under the
  loop's key.
\<close>

definition entry_mvp :: "tool_info \<times> (exn + pyval) \<Rightarrow> ToolCall" where
  "entry_mvp p =
     (case snd p of
        Inr v \<Rightarrow> \<lparr>tool_name = tool_call_name (fst p), parameters = tool_parameters (fst p),
                  result = v, execution_time_ms = Some 50, error = None\<rparr>
      | Inl e \<Rightarrow> \<lparr>tool_name = tool_call_name (fst p), parameters = tool_parameters (fst p),
                  result = PNone, execution_time_ms = None, error = Some (str_exn e)\<rparr>)"

definition store_results :: "(tool_info \<Rightarrow> string) \<Rightarrow> (string \<times> pyval) list \<Rightarrow> (tool_info \<times> (exn + pyval)) list \<Rightarrow> (string \<times> pyval) list" where
  "store_results key d outs =
     foldl (\<lambda>acc p. case snd p of Inr v \<Rightarrow> AList.update (key (fst p)) v acc | Inl e \<Rightarrow> acc) d outs"

text \<open>
  The value a list of answers leaves under a key: that of the last call that returned
  and has this key, or the starting value when there is none.
\<close>

definition last_result ::
  "(tool_info \<Rightarrow> string) \<Rightarrow> string \<Rightarrow> pyval option \<Rightarrow> (tool_info \<times> (exn + pyval)) list \<Rightarrow> pyval option" where
  "last_result key k start outs =
     foldl (\<lambda>acc p. case snd p of
                       Inr v \<Rightarrow> if key (fst p) = k then Some v else acc
                     | Inl e \<Rightarrow> acc) start outs"

section \<open>Sessions\<close>

text \<open>\<open>xs[-n:]\<close> for a positive \<open>n\<close>: the last \<open>n\<close> items, or all of them.\<close>

definition last_n :: "nat \<Rightarrow> 'a list \<Rightarrow> 'a list" where
  "last_n n xs = drop (length xs - n) xs"

subsection \<open>In-memory sessions of \<open>AgentServiceMVP\<close>\<close>

text \<open>
  \<open>self.sessions\<close> maps a session id to the dict built by \<open>create_session\<close>; its
  \<open>context["history"]\<close> is the field \<open>history_mvp\<close>. A history entry holds the query,
  the stored response and \<open>has_tool_data\<close>.
\<close>

record exchange_mvp =
  query_mvp :: string
  response_mvp :: string
  has_tool_data :: bool

record session_mvp =
  session_id_mvp :: string
  user_id_mvp :: "string option"
  status_mvp :: string
  message_count_mvp :: int
  history_mvp :: "exchange_mvp list"

definition create_session_mvp ::
  "string \<Rightarrow> (string \<rightharpoonup> session_mvp) \<Rightarrow> string option \<Rightarrow> string \<times> (string \<rightharpoonup> session_mvp)" where
  "create_session_mvp uuid_hex sessions user_id =
     (let session_id = ''session_'' @ take 12 uuid_hex
      in (session_id,
          sessions(session_id \<mapsto>
            \<lparr>session_id_mvp = session_id, user_id_mvp = user_id, status_mvp = ''active'',
             message_count_mvp = 0, history_mvp = []\<rparr>)))"

definition get_session_mvp :: "(string \<rightharpoonup> session_mvp) \<Rightarrow> string \<Rightarrow> session_mvp option" where
  "get_session_mvp sessions session_id = sessions session_id"

text \<open>
  The stored response is \<open>response[:200] + "..."\<close> ("Truncate for storage"); the history
  keeps the last 10 exchanges. An unknown session id changes nothing.
\<close>

definition update_session_context_mvp ::
  "(string \<rightharpoonup> session_mvp) \<Rightarrow> string \<Rightarrow> string \<Rightarrow> string \<Rightarrow> (string \<times> pyval) list
   \<Rightarrow> (string \<rightharpoonup> session_mvp)" where
  "update_session_context_mvp sessions session_id query response_text results =
     (case sessions session_id of
        None \<Rightarrow> sessions
      | Some session \<Rightarrow>
          sessions(session_id \<mapsto>
            session\<lparr>history_mvp :=
                      last_n 10 (history_mvp session @
                        [\<lparr>query_mvp = query, response_mvp = take 200 response_text @ ''...'',
                          has_tool_data = (results \<noteq> [])\<rparr>]),
                    message_count_mvp := message_count_mvp session + 1\<rparr>))"

subsection \<open>Redis sessions of \<open>AgentService\<close>\<close>

text \<open>
  \<open>self.redis\<close> is \<open>None\<close> or a client; a client is modelled by the store it talks to,
  a map from keys to a time-to-live in seconds and the JSON document, which is kept
  decoded (\<open>json.loads (json.dumps d) = d\<close> on these documents). A store that is present
  answers every command; connection failures are not modelled. The document of a session
  has the keys written by \<open>create_session\<close>. Its field \<open>sd_context\<close> is \<open>None\<close> when the
  document has no \<open>"context"\<close> key, \<open>Some None\<close> when the context has no \<open>"history"\<close> key
  (as \<open>create_session\<close> writes it) and \<open>Some (Some h)\<close> for the history \<open>h\<close>.
\<close>

record SessionConfig =
  cfg_model :: "string option"
  temperature :: real
  max_tokens :: int
  context_window :: int
  tools_enabled :: "string list"
  personalization :: bool
  risk_tolerance :: "string option"

record exchange =
  ex_query :: string
  ex_response :: string
  tools_data :: "(string \<times> pyval) list"

record session_data =
  sd_session_id :: string
  sd_user_id :: "string option"
  sd_config :: SessionConfig
  sd_status :: string
  sd_message_count :: int
  sd_context :: "exchange list option option"

record AgentSessionResponse =
  session_id :: string
  user_id :: "string option"
  config :: SessionConfig
  status :: string
  message_count :: int

type_synonym redis_store = "string \<rightharpoonup> nat \<times> session_data"

definition session_key :: "string \<Rightarrow> string" where
  "session_key sid = ''session:'' @ sid"

definition default_session_config :: "string \<Rightarrow> SessionConfig" where
  "default_session_config default_model =
     \<lparr>cfg_model = Some default_model, temperature = 7/10, max_tokens = 4096,
      context_window = 10, tools_enabled = [''all''], personalization = True,
      risk_tolerance = Some ''medium''\<rparr>"

text \<open>\<open>int(timedelta(hours=2).total_seconds())\<close>.\<close>

definition session_ttl :: nat where
  "session_ttl = 7200"

definition create_session ::
  "string \<Rightarrow> string \<Rightarrow> redis_store option \<Rightarrow> string option \<Rightarrow> SessionConfig option
   \<Rightarrow> AgentSessionResponse \<times> redis_store option" where
  "create_session default_model uuid_hex redis uid session_config =
     (let sid = ''session_'' @ take 12 uuid_hex;
          cfg = (case session_config of
                   None \<Rightarrow> default_session_config default_model
                 | Some c \<Rightarrow> c);
          session_doc = \<lparr>sd_session_id = sid, sd_user_id = uid, sd_config = cfg,
                          sd_status = ''active'', sd_message_count = 0,
                          sd_context = Some None\<rparr>
      in (\<lparr>session_id = sid, user_id = uid, config = cfg, status = ''active'',
           message_count = 0\<rparr>,
          (case redis of
             None \<Rightarrow> None
           | Some store \<Rightarrow> Some (store(session_key sid \<mapsto> (session_ttl, session_doc))))))"

definition get_session :: "redis_store option \<Rightarrow> string \<Rightarrow> AgentSessionResponse option" where
  "get_session redis sid =
     (case redis of
        None \<Rightarrow> None
      | Some store \<Rightarrow>
          (case store (session_key sid) of
             None \<Rightarrow> None
           | Some (ttl, d) \<Rightarrow>
               Some \<lparr>session_id = sd_session_id d, user_id = sd_user_id d, config = sd_config d,
                     status = sd_status d, message_count = sd_message_count d\<rparr>))"

definition delete_session :: "redis_store option \<Rightarrow> string \<Rightarrow> bool \<times> redis_store option" where
  "delete_session redis sid =
     (case redis of
        None \<Rightarrow> (False, None)
      | Some store \<Rightarrow>
          (store (session_key sid) \<noteq> None, Some (store(session_key sid := None))))"

text \<open>
  \<open>_get_session_context\<close> returns \<open>data.get("context", {})\<close>, and \<open>{}\<close> without a client
  or a document; the context is given by its \<open>"history"\<close> entry, \<open>None\<close> when absent.
\<close>

definition get_session_context :: "redis_store option \<Rightarrow> string \<Rightarrow> exchange list option" where
  "get_session_context redis sid =
     (case redis of
        None \<Rightarrow> None
      | Some store \<Rightarrow>
          (case store (session_key sid) of
             None \<Rightarrow> None
           | Some (ttl, d) \<Rightarrow> (case sd_context d of None \<Rightarrow> None | Some h \<Rightarrow> h)))"

text \<open>\<open>session_context.get("history", [])[-5:]\<close> of \<open>_prepare_conversation_context\<close>.\<close>

definition session_history :: "exchange list option \<Rightarrow> exchange list" where
  "session_history ctx = last_n 5 (case ctx of None \<Rightarrow> [] | Some h \<Rightarrow> h)"

text \<open>
  \<open>_update_session_context\<close>: without a client \<open>self.redis.get\<close> raises
  \<open>AttributeError\<close>, which the \<open>except\<close> logs; without a document nothing is written;
  otherwise the exchange is appended, the history cut to its last 20 entries, the message
  count incremented and the document stored again with a fresh two-hour TTL.
\<close>

definition update_session_context ::
  "redis_store option \<Rightarrow> string \<Rightarrow> string \<Rightarrow> string \<Rightarrow> (string \<times> pyval) list
   \<Rightarrow> redis_store option" where
  "update_session_context redis sid query response_text results =
     (case redis of
        None \<Rightarrow> None
      | Some store \<Rightarrow>
          (case store (session_key sid) of
             None \<Rightarrow> Some store
           | Some (ttl, d) \<Rightarrow>
               (let old = (case sd_context d of
                             None \<Rightarrow> []
                           | Some None \<Rightarrow> []
                           | Some (Some h) \<Rightarrow> h);
                    h' = last_n 20 (old @ [\<lparr>ex_query = query, ex_response = response_text,
                                             tools_data = results\<rparr>])
                in Some (store(session_key sid \<mapsto>
                     (session_ttl, d\<lparr>sd_context := Some (Some h'),
                                     sd_message_count := sd_message_count d + 1\<rparr>))))))"

section \<open>\<open>AgentServiceMVP.process_query\<close>\<close>

record AgentQueryResponse =
  r_id :: string
  r_response :: string
  r_session_id :: "string option"
  r_query_type :: "QueryType option"
  r_confidence_score :: real
  r_tools_used :: "ToolCall list"
  r_data_sources :: "DataSource list"
  r_token_usage :: "(string \<times> int) list"
  r_follow_up_suggestions :: "string list option"

text \<open>
  \<open>_generate_follow_ups\<close> of the MVP: a table with four keys; the two other query types
  take the \<open>.get\<close> default.
\<close>

fun generate_follow_ups_mvp :: "QueryType \<Rightarrow> string list" where
  "generate_follow_ups_mvp PRICE_PREDICTION =
     [''What factors are driving this price movement?'',
      ''How does this compare to other cryptocurrencies?'',
      ''What's the technical analysis looking like?'']"
| "generate_follow_ups_mvp NEWS_SENTIMENT =
     [''How is this affecting Bitcoin price?'',
      ''What other coins might be impacted?'',
      ''Show me more detailed market sentiment'']"
| "generate_follow_ups_mvp MARKET_ANALYSIS =
     [''What's your trading recommendation?'',
      ''Show me the fear and greed index'',
      ''What are the key support and resistance levels?'']"
| "generate_follow_ups_mvp GENERAL_CRYPTO =
     [''Tell me about Bitcoin price trends'',
      ''What's the current market sentiment?'',
      ''Show me recent crypto news'']"
| "generate_follow_ups_mvp _ =
     [''Tell me about Bitcoin's current price'',
      ''What's the market sentiment right now?'',
      ''Show me the latest crypto news'']"

text \<open>
  The whole method. Its collaborators are parameters: \<open>call\<close> is
  \<open>self.mcp_manager.call_tool\<close>; \<open>generate\<close> is \<open>_generate_mock_response\<close>, the text
  synthesis from the query, its type and the tool-result mapping, which returns the text or
  the exception it raised (it formats the results it is given). An exception inside the
  outer \<open>try\<close> is re-raised as \<open>AgentSessionError\<close>; exceptions of tool calls never reach
  it, the loop has caught them. The response object validates
  \<open>0 \<le> confidence_score \<le> 1\<close>, which lemma \<open>confidence_mvp_in_unit_interval\<close> shows
  to hold always. The session is updated only for a truthy \<open>session_id\<close>.
\<close>

definition process_query_mvp ::
  "'s dispatcher
   \<Rightarrow> (string \<Rightarrow> QueryType \<Rightarrow> (string \<times> pyval) list \<Rightarrow> exn + string)
   \<Rightarrow> string
   \<Rightarrow> 's \<times> (string \<rightharpoonup> session_mvp)
   \<Rightarrow> string \<Rightarrow> string option
   \<Rightarrow> (exn + AgentQueryResponse) \<times> 's \<times> (string \<rightharpoonup> session_mvp)" where
  "process_query_mvp call generate uuid_hex state query sid =
     (let analysis = analyze_query_mvp query;
          looped = tool_loop_mvp call (tools analysis) (empty_loop_state, fst state);
          st = fst looped
      in case generate query (qtype analysis) (tool_results st) of
           Inl e \<Rightarrow>
             (Inl (AgentSessionError (''Query processing failed: '' @ str_exn e) sid),
              snd looped, snd state)
         | Inr response_content \<Rightarrow>
             (Inr \<lparr>r_id = ''resp_'' @ take 8 uuid_hex,
                   r_response = response_content,
                   r_session_id = sid,
                   r_query_type = Some (qtype analysis),
                   r_confidence_score =
                     calculate_confidence_score_mvp (tools_used st)
                       (int (length (tools analysis))) (qtype analysis),
                   r_tools_used = tools_used st,
                   r_data_sources = data_sources st,
                   r_token_usage = [(''prompt_tokens'', 150), (''completion_tokens'', 300),
                                    (''total_tokens'', 450)],
                   r_follow_up_suggestions = Some (generate_follow_ups_mvp (qtype analysis))\<rparr>,
              snd looped,
              (case sid of
                 None \<Rightarrow> snd state
               | Some i \<Rightarrow>
                   if i = [] then snd state
                   else update_session_context_mvp (snd state) i query response_content
                          (tool_results st))))"

section \<open>LLM client (\<open>gemini_client.py\<close>) and the streaming path\<close>

text \<open>
  Subscripts and \<open>.get\<close> on Python values: \<open>v[key]\<close>, \<open>v[i]\<close> and \<open>v.get(key, default)\<close>,
  each with the exception it raises on the wrong kind of value. The message texts of
  built-in exceptions are those of CPython 3.11; no property below depends on them.
\<close>

definition quoted :: "string \<Rightarrow> string" where
  "quoted k = CHR 0x27 # k @ [CHR 0x27]"

text \<open>\<open>type(v).__name__\<close>.\<close>

fun type_name :: "pyval \<Rightarrow> string" where
  "type_name PNone = ''NoneType''"
| "type_name (PBool b) = ''bool''"
| "type_name (PInt i) = ''int''"
| "type_name (PFloat r) = ''float''"
| "type_name (PStr s) = ''str''"
| "type_name (PList xs) = ''list''"
| "type_name (PDict kvs) = ''dict''"

definition not_subscriptable :: "pyval \<Rightarrow> exn" where
  "not_subscriptable v =
     PyException ''TypeError'' (quoted (type_name v) @ '' object is not subscriptable'')"

fun getitem_key :: "pyval \<Rightarrow> string \<Rightarrow> exn + pyval" where
  "getitem_key (PDict kvs) k =
     (case map_of kvs k of
        None \<Rightarrow> Inl (PyException ''KeyError'' (quoted k))
      | Some v \<Rightarrow> Inr v)"
| "getitem_key (PList xs) k =
     Inl (PyException ''TypeError'' ''list indices must be integers or slices, not str'')"
| "getitem_key (PStr s) k =
     Inl (PyException ''TypeError'' (''string indices must be integers, not '' @ quoted ''str''))"
| "getitem_key v k = Inl (not_subscriptable v)"

fun getitem_idx :: "pyval \<Rightarrow> nat \<Rightarrow> exn + pyval" where
  "getitem_idx (PList xs) i =
     (if i < length xs then Inr (xs ! i)
      else Inl (PyException ''IndexError'' ''list index out of range''))"
| "getitem_idx (PStr s) i =
     (if i < length s then Inr (PStr [s ! i])
      else Inl (PyException ''IndexError'' ''string index out of range''))"
| "getitem_idx (PDict kvs) i = Inl (PyException ''KeyError'' (str_nat i))"
| "getitem_idx v i = Inl (not_subscriptable v)"

fun get_default :: "pyval \<Rightarrow> string \<Rightarrow> pyval \<Rightarrow> exn + pyval" where
  "get_default (PDict kvs) k dflt =
     (case map_of kvs k of None \<Rightarrow> Inr dflt | Some v \<Rightarrow> Inr v)"
| "get_default v k dflt =
     Inl (PyException ''AttributeError''
           (quoted (type_name v) @ '' object has no attribute '' @ quoted ''get''))"

text \<open>Sequencing of steps that may raise.\<close>

definition and_then :: "exn + 'a \<Rightarrow> ('a \<Rightarrow> exn + 'b) \<Rightarrow> exn + 'b" where
  "and_then r f = (case r of Inl e \<Rightarrow> Inl e | Inr v \<Rightarrow> f v)"

text \<open>
  What can end a coroutine or a generator: an instance of \<open>Exception\<close>, or a
  \<open>BaseException\<close> outside \<open>Exception\<close> (\<open>asyncio.CancelledError\<close>, \<open>KeyboardInterrupt\<close>,
  \<open>SystemExit\<close>), given by its class name and \<open>str(e)\<close>. A handler \<open>except Exception\<close>
  catches the first kind only.
\<close>

datatype thrown = Exception exn | BaseException string string

definition as_thrown :: "exn + 'a \<Rightarrow> thrown + 'a" where
  "as_thrown r = (case r of Inl e \<Rightarrow> Inl (Exception e) | Inr v \<Rightarrow> Inr v)"

text \<open>
  A generator run to its end: the items it yielded, in order, and what ended it, if
  anything did (\<open>None\<close>: it returned).
\<close>

datatype 'a gen = Gen (yields: "'a list") (raised: "thrown option")

fun seq_gen :: "'a gen \<Rightarrow> 'a gen \<Rightarrow> 'a gen" where
  "seq_gen (Gen ys None) (Gen zs r) = Gen (ys @ zs) r"
| "seq_gen (Gen ys (Some e)) g = Gen ys (Some e)"

record message =
  role :: string
  content :: string

subsection \<open>\<open>GeminiClient.stream_completion\<close>\<close>

text \<open>\<open>response["choices"][0]["message"]["content"]\<close>.\<close>

definition message_content :: "pyval \<Rightarrow> exn + pyval" where
  "message_content response =
     and_then (getitem_key response ''choices'') (\<lambda>choices.
     and_then (getitem_idx choices 0) (\<lambda>choice.
     and_then (getitem_key choice ''message'') (\<lambda>msg.
     getitem_key msg ''content'')))"

definition stop_chunk :: "pyval \<Rightarrow> pyval \<Rightarrow> pyval" where
  "stop_chunk text usage =
     PDict [(''choices'', PList [PDict [(''delta'', PDict [(''content'', text)]),
                                        (''finish_reason'', PStr ''stop'')]]),
            (''usage'', usage)]"

definition error_chunk :: "exn \<Rightarrow> pyval" where
  "error_chunk e =
     PDict [(''choices'', PList [PDict [(''delta'', PDict [(''content'', PStr [])]),
                                        (''finish_reason'', PStr ''error'')]]),
            (''error'', PStr (str_exn e))]"

text \<open>
  The \<open>try\<close> body: await \<open>chat_completion\<close> (the parameter \<open>chat\<close>: the response, or what
  the awaited call raised), build the single chunk, yield it.
\<close>

definition stream_completion_body :: "(message list \<Rightarrow> thrown + pyval) \<Rightarrow> message list \<Rightarrow> pyval gen" where
  "stream_completion_body chat messages =
     (case chat messages of
        Inl t \<Rightarrow> Gen [] (Some t)
      | Inr response \<Rightarrow>
          (case and_then (message_content response) (\<lambda>text.
                and_then (get_default response ''usage'' (PDict [])) (\<lambda>usage.
                Inr (stop_chunk text usage))) of
             Inl e \<Rightarrow> Gen [] (Some (Exception e))
           | Inr chunk \<Rightarrow> Gen [chunk] None))"

text \<open>
  The \<open>except Exception\<close> handler yields the error chunk and the generator returns; what
  is not an instance of \<open>Exception\<close> passes through the handler and ends the generator.
\<close>

definition stream_completion :: "(message list \<Rightarrow> thrown + pyval) \<Rightarrow> message list \<Rightarrow> pyval gen" where
  "stream_completion chat messages =
     (case stream_completion_body chat messages of
        Gen ys None \<Rightarrow> Gen ys None
      | Gen ys (Some (Exception e)) \<Rightarrow> Gen (ys @ [error_chunk e]) None
      | Gen ys (Some (BaseException c m)) \<Rightarrow> Gen ys (Some (BaseException c m)))"

subsection \<open>\<open>AgentService._build_llm_messages\<close>\<close>

text \<open>
  The first message is the framing f-string, which embeds
  \<open>json.dumps(tool_results, indent=2)\<close>; its rendering is the parameter \<open>render\<close> (the
  text, or the exception \<open>json.dumps\<close> raised). Then come the history turns and the query.
\<close>

definition build_llm_messages ::
  "(QueryType option \<Rightarrow> (string \<times> pyval) list \<Rightarrow> exn + string)
   \<Rightarrow> string \<Rightarrow> exchange list \<Rightarrow> (string \<times> pyval) list \<Rightarrow> QueryType option
   \<Rightarrow> exn + message list" where
  "build_llm_messages render query hist results qt =
     and_then (render qt results) (\<lambda>prompt.
       Inr ([\<lparr>role = ''user'', content = prompt\<rparr>]
            @ concat (map (\<lambda>x. [\<lparr>role = ''user'', content = ex_query x\<rparr>,
                                  \<lparr>role = ''assistant'', content = ex_response x\<rparr>]) hist)
            @ [\<lparr>role = ''user'', content = query\<rparr>]))"

subsection \<open>\<open>AgentService.stream_query_response\<close>\<close>

record event =
  ev_type :: string
  ev_content :: pyval
  ev_tool :: "string option"

definition ev :: "string \<Rightarrow> string \<Rightarrow> event" where
  "ev t c = \<lparr>ev_type = t, ev_content = PStr c, ev_tool = None\<rparr>"

definition tool_result_event :: "tool_info \<Rightarrow> event" where
  "tool_result_event ti =
     \<lparr>ev_type = ''tool_result'', ev_content = PStr (''Retrieved data from '' @ server ti),
      ev_tool = Some (tool ti)\<rparr>"

definition tool_error_event :: "tool_info \<Rightarrow> exn \<Rightarrow> event" where
  "tool_error_event ti e =
     ev ''tool_error'' (''Failed to get data from '' @ server ti @ '': '' @ str_exn e)"

text \<open>
  The tool loop of the streaming path (lines 237 to 258): one \<open>tool_result\<close> or
  \<open>tool_error\<close> event per descriptor; results are keyed by the bare tool name.
\<close>

fun stream_tool_loop ::
  "'s dispatcher \<Rightarrow> tool_info list \<Rightarrow> (string \<times> pyval) list \<times> 's
   \<Rightarrow> event list \<times> (string \<times> pyval) list \<times> 's" where
  "stream_tool_loop call [] (results, s) = ([], results, s)"
| "stream_tool_loop call (ti # tis) (results, s) =
     (case call s (server ti) (tool ti) (tool_parameters ti) of
        (Inr v, s') \<Rightarrow>
          (case stream_tool_loop call tis (AList.update (tool ti) v results, s') of
             (evs, r) \<Rightarrow> (tool_result_event ti # evs, r))
      | (Inl e, s') \<Rightarrow>
          (case stream_tool_loop call tis (results, s') of
             (evs, r) \<Rightarrow> (tool_error_event ti e # evs, r)))"

text \<open>
  The test on a chunk,
  \<open>chunk.get("choices") and chunk["choices"][0].get("delta", {}).get("content")\<close>:
  \<open>Some c\<close> when a \<open>content\<close> event with \<open>c\<close> is to be yielded, \<open>None\<close> when the chunk is
  skipped. The event's content re-reads \<open>chunk["choices"][0]["delta"]["content"]\<close>, the
  value \<open>c\<close> the test has just found.
\<close>

definition chunk_content :: "pyval \<Rightarrow> exn + pyval option" where
  "chunk_content chunk =
     and_then (get_default chunk ''choices'' PNone) (\<lambda>choices.
       if \<not> truthy choices then Inr None
       else
         and_then (getitem_idx choices 0) (\<lambda>choice.
         and_then (get_default choice ''delta'' (PDict [])) (\<lambda>delta.
         and_then (get_default delta ''content'' PNone) (\<lambda>c.
           Inr (if truthy c then Some c else None)))))"

fun content_events :: "pyval list \<Rightarrow> event gen" where
  "content_events [] = Gen [] None"
| "content_events (chunk # chunks) =
     (case chunk_content chunk of
        Inl e \<Rightarrow> Gen [] (Some (Exception e))
      | Inr None \<Rightarrow> content_events chunks
      | Inr (Some c) \<Rightarrow>
          seq_gen (Gen [\<lparr>ev_type = ''content'', ev_content = c, ev_tool = None\<rparr>] None)
            (content_events chunks))"

text \<open>\<open>async for chunk in stream\<close>: the chunks in turn, then the stream's own end.\<close>

definition for_chunks :: "pyval gen \<Rightarrow> event gen" where
  "for_chunks stream = seq_gen (content_events (yields stream)) (Gen [] (raised stream))"

text \<open>
  The \<open>try\<close> body. The optional \<open>context\<close> argument is taken at its default \<open>None\<close>.
  The session context is read only for a truthy \<open>session_id\<close>. The collaborators of the
  streaming path (\<open>call\<close>, \<open>render\<close>, \<open>chat\<close>) fail with instances of \<open>Exception\<close>.
\<close>

definition stream_context :: "redis_store option \<Rightarrow> string option \<Rightarrow> exchange list option" where
  "stream_context redis sid =
     (case sid of
        None \<Rightarrow> None
      | Some i \<Rightarrow> if i = [] then None else get_session_context redis i)"

definition stream_query_response_body ::
  "'s dispatcher
   \<Rightarrow> (QueryType option \<Rightarrow> (string \<times> pyval) list \<Rightarrow> exn + string)
   \<Rightarrow> (message list \<Rightarrow> exn + pyval)
   \<Rightarrow> redis_store option \<Rightarrow> 's \<Rightarrow> string \<Rightarrow> string option \<Rightarrow> event gen \<times> 's" where
  "stream_query_response_body call render chat redis s query sid =
     (case analyze_query query of
        Inl e \<Rightarrow>
          (Gen [ev ''start'' [], ev ''analysis'' ''Analyzing your query...'']
             (Some (Exception e)), s)
      | Inr analysis \<Rightarrow>
          (case stream_tool_loop call (tools analysis) ([], s) of
             (evs, results, s') \<Rightarrow>
               (seq_gen
                  (Gen ([ev ''start'' [], ev ''analysis'' ''Analyzing your query...'']
                        @ (if tools analysis \<noteq> []
                           then [ev ''tools'' (''Fetching data from ''
                                   @ str_nat (length (tools analysis)) @ '' sources...'')]
                           else [])
                        @ evs
                        @ [ev ''generating'' ''Analyzing data and generating response...''])
                     None)
                  (case build_llm_messages render query
                          (session_history (stream_context redis sid)) results
                          (Some (qtype analysis)) of
                     Inl e \<Rightarrow> Gen [] (Some (Exception e))
                   | Inr messages \<Rightarrow>
                       seq_gen (for_chunks (stream_completion (\<lambda>m. as_thrown (chat m))
                                              messages))
                         (Gen [ev ''complete'' []] None)),
                s')))"

text \<open>
  The \<open>except Exception\<close> handler: one \<open>error\<close> event after whatever was yielded, and the
  generator returns; what is not an instance of \<open>Exception\<close> passes through.
\<close>

definition stream_query_response ::
  "'s dispatcher
   \<Rightarrow> (QueryType option \<Rightarrow> (string \<times> pyval) list \<Rightarrow> exn + string)
   \<Rightarrow> (message list \<Rightarrow> exn + pyval)
   \<Rightarrow> redis_store option \<Rightarrow> 's \<Rightarrow> string \<Rightarrow> string option \<Rightarrow> event gen \<times> 's" where
  "stream_query_response call render chat redis s query sid =
     (case stream_query_response_body call render chat redis s query sid of
        (Gen ys None, s') \<Rightarrow> (Gen ys None, s')
      | (Gen ys (Some (Exception e)), s') \<Rightarrow>
          (Gen (ys @ [ev ''error'' (''Error processing query: '' @ str_exn e)]) None, s')
      | (Gen ys (Some (BaseException c m)), s') \<Rightarrow> (Gen ys (Some (BaseException c m)), s'))"

section \<open>Concrete inputs\<close>

text \<open>
  A manager that knows the single HTTP server \<open>feargreed\<close> in a given status, a transport
  that answers every call with the parameters it was sent, one that fails every call with
  HTTP status 500, and a dispatcher that echoes the parameters.
\<close>

definition example_server :: "string \<Rightarrow> string \<Rightarrow> MCPServer" where
  "example_server nm st =
     \<lparr>mcp_name = nm, mcp_url = Some (''https://mcp.example/'' @ nm), mcp_status = st,
      mcp_error_count = 0\<rparr>"

definition example_manager :: "string \<Rightarrow> nat MCPManager" where
  "example_manager st =
     \<lparr>servers = [''feargreed'' \<mapsto> example_server ''feargreed'' st], world = 0, io_calls = 0\<rparr>"

definition responding_transport ::
  "nat \<Rightarrow> MCPServer \<Rightarrow> string \<Rightarrow> (string \<times> param) list \<Rightarrow> (exn + pyval) \<times> nat" where
  "responding_transport w srv tn ps =
     (Inr (PDict (map (\<lambda>kv. (fst kv, PStr (str_param (snd kv)))) ps)), Suc w)"

definition failing_transport ::
  "nat \<Rightarrow> MCPServer \<Rightarrow> string \<Rightarrow> (string \<times> param) list \<Rightarrow> (exn + pyval) \<times> nat" where
  "failing_transport w srv tn ps =
     (Inl (PyException ''Exception'' ''HTTP tool call failed: 500''), Suc w)"

definition echo_dispatcher :: "unit dispatcher" where
  "echo_dispatcher s sn tn ps =
     (Inr (PDict (map (\<lambda>kv. (fst kv, PStr (str_param (snd kv)))) ps)), s)"

section \<open>Properties of the confidence estimator\<close>

lemma tool_success_rate_nonneg: "0 \<le> tool_success_rate tu n"
  by (simp add: tool_success_rate_def)

lemma type_confidence_pos: "0 \<le> type_confidence qt"
  by (cases qt) simp_all

lemma type_confidence_mvp_pos: "0 \<le> type_confidence_mvp qt"
  by (cases qt) simp_all

lemma confidence_in_unit_interval:
  "0 \<le> calculate_confidence_score tu n qt \<and> calculate_confidence_score tu n qt \<le> 1"
  using tool_success_rate_nonneg [of tu n] type_confidence_pos [of qt]
  by (simp add: calculate_confidence_score_def min_def)

lemma confidence_mvp_in_unit_interval:
  "0 \<le> calculate_confidence_score_mvp tu n qt
   \<and> calculate_confidence_score_mvp tu n qt \<le> 1"
  using tool_success_rate_nonneg [of tu n] type_confidence_mvp_pos [of qt]
  by (simp add: calculate_confidence_score_mvp_def min_def)

text \<open>
  Claim C1. The confidence estimator is a function of its three arguments alone, and for
  every list of tool calls, every required-tool count and every query type, in both
  services: the score lies in [0,1]; it is exactly 0.7 when the required-tool count
  is 0; and for a positive count it is the number of successful calls divided by the
  count, times the weight of the query type, capped at the ceiling (0.95 in
  agent_service.py, 0.90 in agent_service_mvp.py). Floats are read as the reals they
  denote.
\<close>

theorem confidence_score_spec:
  "0 \<le> calculate_confidence_score tu n qt \<and> calculate_confidence_score tu n qt \<le> 1
   \<and> 0 \<le> calculate_confidence_score_mvp tu n qt \<and> calculate_confidence_score_mvp tu n qt \<le> 1
   \<and> calculate_confidence_score tu 0 qt = 7/10
   \<and> calculate_confidence_score_mvp tu 0 qt = 7/10
   \<and> (0 < n \<longrightarrow> calculate_confidence_score tu n qt =
          min (95/100) (real (successful_tools tu) / real_of_int n * type_confidence qt))
   \<and> (0 < n \<longrightarrow> calculate_confidence_score_mvp tu n qt =
          min (90/100) (real (successful_tools tu) / real_of_int n * type_confidence_mvp qt))"
proof -
  have zero: "calculate_confidence_score tu 0 qt = 7/10"
    "calculate_confidence_score_mvp tu 0 qt = 7/10"
    by (simp_all add: calculate_confidence_score_def calculate_confidence_score_mvp_def)
  have pos: "0 < n \<longrightarrow> calculate_confidence_score tu n qt =
          min (95/100) (real (successful_tools tu) / real_of_int n * type_confidence qt)"
    by (simp add: calculate_confidence_score_def tool_success_rate_def)
  have pos_mvp: "0 < n \<longrightarrow> calculate_confidence_score_mvp tu n qt =
          min (90/100) (real (successful_tools tu) / real_of_int n * type_confidence_mvp qt)"
    by (simp add: calculate_confidence_score_mvp_def tool_success_rate_def)
  from confidence_in_unit_interval [of tu n qt] confidence_mvp_in_unit_interval [of tu n qt]
    zero pos pos_mvp
  show ?thesis by blast
qed

text \<open>
  The theorem at two required tools of which one failed, for a price query: half of the
  weight, 0.35 and 0.375.
\<close>

theorem confidence_score_spec_witness:
  "calculate_confidence_score
     [\<lparr>tool_name = ''coingecko.get_coin_price'', parameters = [(''symbol'', SParam ''BTC'')],
       result = PDict [(''price_usd'', PInt 43250)], execution_time_ms = Some 50, error = None\<rparr>,
      \<lparr>tool_name = ''ccxt.get_ticker'', parameters = [(''symbol'', SParam ''BTC/USDT'')],
       result = PNone, execution_time_ms = None, error = Some ''timeout''\<rparr>] 2 PRICE_PREDICTION
   = 35/100
   \<and> calculate_confidence_score_mvp
     [\<lparr>tool_name = ''coingecko.get_coin_price'', parameters = [(''symbol'', SParam ''BTC'')],
       result = PDict [(''price_usd'', PInt 43250)], execution_time_ms = Some 50, error = None\<rparr>,
      \<lparr>tool_name = ''ccxt.get_ticker'', parameters = [(''symbol'', SParam ''BTC/USDT'')],
       result = PNone, execution_time_ms = None, error = Some ''timeout''\<rparr>] 2 PRICE_PREDICTION
   = 375/1000"
  using confidence_score_spec [of
     "[\<lparr>tool_name = ''coingecko.get_coin_price'', parameters = [(''symbol'', SParam ''BTC'')],
       result = PDict [(''price_usd'', PInt 43250)], execution_time_ms = Some 50, error = None\<rparr>,
      \<lparr>tool_name = ''ccxt.get_ticker'', parameters = [(''symbol'', SParam ''BTC/USDT'')],
       result = PNone, execution_time_ms = None, error = Some ''timeout''\<rparr>]" 2 PRICE_PREDICTION]
  by (simp add: successful_tools_def)

section \<open>Properties of the classifiers\<close>

lemma any_in_append: "any_in (ws @ vs) s = (any_in ws s \<or> any_in vs s)"
  by (simp add: any_in_def)

text \<open>
  Claim C5, amended. A query that contains none of the category keywords of a classifier
  is classified without failure as the general type. \<open>AgentServiceMVP\<close> then returns the
  fixed fallback tools (\<open>coingecko.get_coin_price\<close> for BTC and
  \<open>feargreed.get_fear_greed_index\<close>), unless the stripped, lower-cased query is or starts
  with a greeting, in which case the tool list is empty. \<open>AgentService\<close> has no fallback
  tools: its tool list is empty.
\<close>

theorem analyze_query_no_keyword:
  "(\<not> any_in (price_keywords_mvp @ sentiment_keywords_mvp @ news_keywords_mvp
               @ analysis_keywords_mvp) (strip (lower query)) \<longrightarrow>
      analyze_query_mvp query =
        (if is_greeting (strip (lower query))
         then \<lparr>qtype = GENERAL_CRYPTO, tools = [], confidence = 9/10\<rparr>
         else \<lparr>qtype = GENERAL_CRYPTO, tools = default_tools, confidence = 8/10\<rparr>))
   \<and> (\<not> any_in (price_keywords @ sentiment_keywords @ news_keywords @ whale_keywords
                 @ compliance_keywords) (lower query) \<longrightarrow>
      analyze_query query = Inr \<lparr>qtype = GENERAL_CRYPTO, tools = [], confidence = 8/10\<rparr>)"
  by (simp add: any_in_append analyze_query_mvp_def analyze_query_def Let_def
        price_branch_mvp_def sentiment_branch_mvp_def news_branch_mvp_def
        analysis_branch_mvp_def price_branch_def sentiment_branch_def news_branch_def
        whale_branch_def)

text \<open>The theorem at the query "Tell me a joke", which has no keyword and no greeting.\<close>

theorem analyze_query_no_keyword_witness:
  "\<not> any_in (price_keywords_mvp @ sentiment_keywords_mvp @ news_keywords_mvp
               @ analysis_keywords_mvp) (strip (lower ''Tell me a joke''))
   \<and> \<not> is_greeting (strip (lower ''Tell me a joke''))
   \<and> analyze_query_mvp ''Tell me a joke'' =
         \<lparr>qtype = GENERAL_CRYPTO, tools = default_tools, confidence = 8/10\<rparr>
   \<and> \<not> any_in (price_keywords @ sentiment_keywords @ news_keywords @ whale_keywords
                 @ compliance_keywords) (lower ''Tell me a joke'')
   \<and> analyze_query ''Tell me a joke'' =
         Inr \<lparr>qtype = GENERAL_CRYPTO, tools = [], confidence = 8/10\<rparr>"
proof -
  have h1: "\<not> any_in (price_keywords_mvp @ sentiment_keywords_mvp @ news_keywords_mvp
               @ analysis_keywords_mvp) (strip (lower ''Tell me a joke''))"
    by code_simp
  have h2: "\<not> any_in (price_keywords @ sentiment_keywords @ news_keywords @ whale_keywords
                 @ compliance_keywords) (lower ''Tell me a joke'')"
    by code_simp
  have g: "\<not> is_greeting (strip (lower ''Tell me a joke''))"
    by code_simp
  from analyze_query_no_keyword [of "''Tell me a joke''"] h1 h2 g show ?thesis
    by simp
qed

text \<open>
  The claim as stated fails in both services: \<open>AgentService\<close> answers "Tell me a joke"
  with no tools at all, and \<open>AgentServiceMVP\<close> answers "History of money", which has no
  category keyword but starts with "hi", with no tools either; the fallback set is not
  empty.
\<close>

theorem analyze_query_no_keyword_counterexample:
  "\<not> any_in (price_keywords @ sentiment_keywords @ news_keywords @ whale_keywords
              @ compliance_keywords) (lower ''Tell me a joke'')
   \<and> analyze_query ''Tell me a joke'' =
         Inr \<lparr>qtype = GENERAL_CRYPTO, tools = [], confidence = 8/10\<rparr>
   \<and> \<not> any_in (price_keywords_mvp @ sentiment_keywords_mvp @ news_keywords_mvp
               @ analysis_keywords_mvp) (strip (lower ''History of money''))
   \<and> analyze_query_mvp ''History of money'' =
         \<lparr>qtype = GENERAL_CRYPTO, tools = [], confidence = 9/10\<rparr>
   \<and> default_tools \<noteq> []"
  by code_simp

section \<open>Properties of the LLM client and of the streaming path\<close>

lemma stream_completion_cases:
  "(\<exists>chunk. stream_completion_body chat messages = Gen [chunk] None)
   \<or> (\<exists>t. stream_completion_body chat messages = Gen [] (Some t)
            \<and> (chat messages = Inl t \<or> (\<exists>e. t = Exception e)))"
  by (auto simp add: stream_completion_body_def split: sum.splits)

text \<open>
  Claim C9, amended. Whenever \<open>chat_completion\<close> returns or raises an instance of
  \<open>Exception\<close>, \<open>GeminiClient.stream_completion\<close> does not raise: the generator returns
  after exactly one chunk. When \<open>chat_completion\<close> raises the exception \<open>e\<close> (and, more
  generally, when the \<open>try\<close> body raises \<open>e\<close>, as it also does on a response without
  \<open>choices[0].message.content\<close>), that chunk has the empty string as delta content,
  \<open>finish_reason = "error"\<close> and an \<open>"error"\<close> field holding \<open>str(e)\<close>. What
  \<open>chat_completion\<close> raises outside \<open>Exception\<close> (a cancellation, say) is not caught: it
  ends the generator before any chunk.
\<close>

theorem stream_completion_total:
  "((\<forall>c m. chat messages \<noteq> Inl (BaseException c m)) \<longrightarrow>
       raised (stream_completion chat messages) = None
       \<and> length (yields (stream_completion chat messages)) = 1)
   \<and> (\<forall>e. chat messages = Inl (Exception e) \<longrightarrow>
         stream_completion chat messages =
           Gen [PDict [(''choices'',
                        PList [PDict [(''delta'', PDict [(''content'', PStr [])]),
                                      (''finish_reason'', PStr ''error'')]]),
                       (''error'', PStr (str_exn e))]] None)
   \<and> (\<forall>e. raised (stream_completion_body chat messages) = Some (Exception e) \<longrightarrow>
         stream_completion chat messages = Gen [error_chunk e] None)
   \<and> (\<forall>c m. chat messages = Inl (BaseException c m) \<longrightarrow>
         stream_completion chat messages = Gen [] (Some (BaseException c m)))"
proof -
  have a: "(\<forall>c m. chat messages \<noteq> Inl (BaseException c m)) \<longrightarrow>
       raised (stream_completion chat messages) = None
       \<and> length (yields (stream_completion chat messages)) = 1"
  proof
    assume h: "\<forall>c m. chat messages \<noteq> Inl (BaseException c m)"
    from stream_completion_cases [of chat messages]
    show "raised (stream_completion chat messages) = None
          \<and> length (yields (stream_completion chat messages)) = 1"
    proof
      assume "\<exists>chunk. stream_completion_body chat messages = Gen [chunk] None"
      then show ?thesis by (auto simp: stream_completion_def)
    next
      assume "\<exists>t. stream_completion_body chat messages = Gen [] (Some t)
                \<and> (chat messages = Inl t \<or> (\<exists>e. t = Exception e))"
      then obtain t where t: "stream_completion_body chat messages = Gen [] (Some t)"
        and o: "chat messages = Inl t \<or> (\<exists>e. t = Exception e)" by blast
      from o h obtain e where "t = Exception e" by (cases t) auto
      with t show ?thesis by (simp add: stream_completion_def)
    qed
  qed
  have b: "\<forall>e. chat messages = Inl (Exception e) \<longrightarrow>
         stream_completion chat messages =
           Gen [PDict [(''choices'',
                        PList [PDict [(''delta'', PDict [(''content'', PStr [])]),
                                      (''finish_reason'', PStr ''error'')]]),
                       (''error'', PStr (str_exn e))]] None"
    by (simp add: stream_completion_def stream_completion_body_def error_chunk_def)
  have c: "\<forall>e. raised (stream_completion_body chat messages) = Some (Exception e) \<longrightarrow>
         stream_completion chat messages = Gen [error_chunk e] None"
    using stream_completion_cases [of chat messages]
    by (auto simp: stream_completion_def)
  have d: "\<forall>c m. chat messages = Inl (BaseException c m) \<longrightarrow>
         stream_completion chat messages = Gen [] (Some (BaseException c m))"
    by (simp add: stream_completion_def stream_completion_body_def)
  from a b c d show ?thesis by blast
qed

text \<open>
  The theorem at an LLM call that raises \<open>GeminiAPIError\<close> with status 503, and at one
  that is cancelled.
\<close>

theorem stream_completion_total_witness:
  "stream_completion (\<lambda>m. Inl (Exception (GeminiAPIError ''API request failed: 503'' (Some 503))))
      [\<lparr>role = ''user'', content = ''hello''\<rparr>] =
     Gen [PDict [(''choices'',
                        PList [PDict [(''delta'', PDict [(''content'', PStr [])]),
                                      (''finish_reason'', PStr ''error'')]]),
                       (''error'', PStr ''API request failed: 503'')]] None
   \<and> raised (stream_completion
        (\<lambda>m. Inl (Exception (GeminiAPIError ''API request failed: 503'' (Some 503))))
        [\<lparr>role = ''user'', content = ''hello''\<rparr>]) = None
   \<and> length (yields (stream_completion
        (\<lambda>m. Inl (Exception (GeminiAPIError ''API request failed: 503'' (Some 503))))
        [\<lparr>role = ''user'', content = ''hello''\<rparr>])) = 1
   \<and> stream_completion (\<lambda>m. Inl (BaseException ''CancelledError'' []))
        [\<lparr>role = ''user'', content = ''hello''\<rparr>]
      = Gen [] (Some (BaseException ''CancelledError'' []))"
  using stream_completion_total [of
          "\<lambda>m. Inl (Exception (GeminiAPIError ''API request failed: 503'' (Some 503)))"
          "[\<lparr>role = ''user'', content = ''hello''\<rparr>]"]
        stream_completion_total [of "\<lambda>m. Inl (BaseException ''CancelledError'' [])"
          "[\<lparr>role = ''user'', content = ''hello''\<rparr>]"]
  by simp

text \<open>
  The claim as stated fails when the awaited \<open>chat_completion\<close> is cancelled:
  \<open>asyncio.CancelledError\<close> is not an \<open>Exception\<close>, so \<open>stream_completion\<close> raises it and
  yields no chunk.
\<close>

theorem stream_completion_total_counterexample:
  "raised (stream_completion (\<lambda>m. Inl (BaseException ''CancelledError'' []))
             [\<lparr>role = ''user'', content = ''hello''\<rparr>])
     = Some (BaseException ''CancelledError'' [])
   \<and> yields (stream_completion (\<lambda>m. Inl (BaseException ''CancelledError'' []))
               [\<lparr>role = ''user'', content = ''hello''\<rparr>]) = []"
  by (simp add: stream_completion_def stream_completion_body_def)

lemma chunk_content_error_chunk: "chunk_content (error_chunk e) = Inr None"
  by (simp add: chunk_content_def error_chunk_def and_then_def)

lemma for_chunks_failed_llm:
  "isl (chat messages) \<Longrightarrow>
   for_chunks (stream_completion (\<lambda>m. as_thrown (chat m)) messages) = Gen [] None"
  by (cases "chat messages")
     (simp_all add: for_chunks_def stream_completion_def stream_completion_body_def
        as_thrown_def chunk_content_error_chunk)

lemma stream_tool_loop_types:
  "list_all (\<lambda>e. ev_type e = ''tool_result'' \<or> ev_type e = ''tool_error'')
     (fst (stream_tool_loop call tis (results, s)))"
proof (induction tis arbitrary: results s)
  case Nil
  then show ?case by simp
next
  case (Cons ti tis)
  obtain out s' where c: "call s (server ti) (tool ti) (tool_parameters ti) = (out, s')"
    by (cases "call s (server ti) (tool ti) (tool_parameters ti)") auto
  show ?case
  proof (cases out)
    case (Inl e)
    from Cons.IH [of results s'] show ?thesis
      by (auto simp add: c Inl tool_error_event_def ev_def split: prod.splits)
  next
    case (Inr v)
    from Cons.IH [of "AList.update (tool ti) v results" s'] show ?thesis
      by (auto simp add: c Inr tool_result_event_def split: prod.splits)
  qed
qed

text \<open>
  Claim C3 (the code departs from it). On the streaming path a failing LLM call produces
  no \<open>error\<close> event: \<open>stream_completion\<close> has turned the failure into its error chunk,
  whose empty content \<open>stream_query_response\<close> skips without looking at \<open>finish_reason\<close>
  or \<open>"error"\<close>. Whenever the classifier succeeds, the prompt renders and the LLM call
  fails, the generator ends normally and its events are \<open>start\<close>, \<open>analysis\<close>, the tool
  events, \<open>generating\<close> and then \<open>complete\<close>.
\<close>

theorem stream_llm_failure_ends_with_complete:
  assumes no_compliance: "\<not> any_in compliance_keywords (lower query)"
      and rendered: "\<And>qt results. \<not> isl (render qt results)"
      and llm_fails: "\<And>messages. isl (chat messages)"
  shows "\<exists>pre. map ev_type (yields (fst (stream_query_response call render chat redis s query sid)))
             = pre @ [''generating'', ''complete'']
           \<and> set pre \<subseteq> {''start'', ''analysis'', ''tools'', ''tool_result'', ''tool_error''}
           \<and> raised (fst (stream_query_response call render chat redis s query sid)) = None"
proof -
  obtain analysis where a: "analyze_query query = Inr analysis"
    using no_compliance by (simp add: analyze_query_def Let_def)
  obtain evs results s' where l: "stream_tool_loop call (tools analysis) ([], s) = (evs, results, s')"
    by (cases "stream_tool_loop call (tools analysis) ([], s)") auto
  have t: "list_all (\<lambda>e. ev_type e = ''tool_result'' \<or> ev_type e = ''tool_error'') evs"
    using stream_tool_loop_types [of call "tools analysis" "[]" s] by (simp add: l)
  obtain messages where m:
    "build_llm_messages render query (session_history (stream_context redis sid)) results
       (Some (qtype analysis)) = Inr messages"
    using rendered [of "Some (qtype analysis)" results]
    by (cases "render (Some (qtype analysis)) results")
       (simp_all add: build_llm_messages_def and_then_def)
  have f: "for_chunks (stream_completion (\<lambda>m. as_thrown (chat m)) messages) = Gen [] None"
    using llm_fails [of messages] by (rule for_chunks_failed_llm)
  let ?pre = "[''start'', ''analysis'']
              @ (if tools analysis \<noteq> [] then [''tools''] else [])
              @ map ev_type evs"
  have "stream_query_response call render chat redis s query sid =
        (Gen ([ev ''start'' [], ev ''analysis'' ''Analyzing your query...'']
              @ (if tools analysis \<noteq> []
                 then [ev ''tools'' (''Fetching data from ''
                         @ str_nat (length (tools analysis)) @ '' sources...'')]
                 else [])
              @ evs
              @ [ev ''generating'' ''Analyzing data and generating response...'',
                 ev ''complete'' []]) None, s')"
    by (simp add: stream_query_response_def stream_query_response_body_def a l m f)
  then have "map ev_type (yields (fst (stream_query_response call render chat redis s query sid)))
             = ?pre @ [''generating'', ''complete'']
           \<and> raised (fst (stream_query_response call render chat redis s query sid)) = None"
    by (simp add: ev_def)
  moreover have "set ?pre \<subseteq> {''start'', ''analysis'', ''tools'', ''tool_result'', ''tool_error''}"
    using t by (auto simp: list_all_iff)
  ultimately show ?thesis by blast
qed

text \<open>
  The theorem at the query "hello" with an LLM call that raises: the four events
  \<open>start\<close>, \<open>analysis\<close>, \<open>generating\<close>, \<open>complete\<close>.
\<close>

theorem stream_llm_failure_ends_with_complete_witness:
  "\<not> any_in compliance_keywords (lower ''hello'')
   \<and> (\<exists>pre. map ev_type (yields (fst (stream_query_response
               (\<lambda>s srv t ps. (Inr (PStr t), s))
               (\<lambda>qt results. Inr ''prompt'')
               (\<lambda>m. Inl (GeminiAPIError ''API request failed: 503'' (Some 503)))
               None () ''hello'' None)))
             = pre @ [''generating'', ''complete'']
           \<and> set pre \<subseteq> {''start'', ''analysis'', ''tools'', ''tool_result'', ''tool_error''}
           \<and> raised (fst (stream_query_response
               (\<lambda>s srv t ps. (Inr (PStr t), s))
               (\<lambda>qt results. Inr ''prompt'')
               (\<lambda>m. Inl (GeminiAPIError ''API request failed: 503'' (Some 503)))
               None () ''hello'' None)) = None)
   \<and> map ev_type (yields (fst (stream_query_response
               (\<lambda>s srv t ps. (Inr (PStr t), s))
               (\<lambda>qt results. Inr ''prompt'')
               (\<lambda>m. Inl (GeminiAPIError ''API request failed: 503'' (Some 503)))
               None () ''hello'' None)))
      = [''start'', ''analysis'', ''generating'', ''complete'']"
proof -
  have h: "\<not> any_in compliance_keywords (lower ''hello'')"
    by code_simp
  have a: "\<exists>pre. map ev_type (yields (fst (stream_query_response
               (\<lambda>s srv t ps. (Inr (PStr t), s))
               (\<lambda>qt results. Inr ''prompt'')
               (\<lambda>m. Inl (GeminiAPIError ''API request failed: 503'' (Some 503)))
               None () ''hello'' None)))
             = pre @ [''generating'', ''complete'']
           \<and> set pre \<subseteq> {''start'', ''analysis'', ''tools'', ''tool_result'', ''tool_error''}
           \<and> raised (fst (stream_query_response
               (\<lambda>s srv t ps. (Inr (PStr t), s))
               (\<lambda>qt results. Inr ''prompt'')
               (\<lambda>m. Inl (GeminiAPIError ''API request failed: 503'' (Some 503)))
               None () ''hello'' None)) = None"
    by (rule stream_llm_failure_ends_with_complete [OF h]) simp_all
  have b: "map ev_type (yields (fst (stream_query_response
               (\<lambda>s srv t ps. (Inr (PStr t), s))
               (\<lambda>qt results. Inr ''prompt'')
               (\<lambda>m. Inl (GeminiAPIError ''API request failed: 503'' (Some 503)))
               None () ''hello'' None)))
      = [''start'', ''analysis'', ''generating'', ''complete'']"
    by code_simp
  from h a b show ?thesis by blast
qed

section \<open>Properties of the sessions\<close>

lemma length_last_n: "length (last_n n xs) \<le> n"
  by (simp add: last_n_def)

lemma last_n_snoc_nonempty: "0 < n \<Longrightarrow> last_n n (xs @ [x]) \<noteq> []"
  by (simp add: last_n_def)

lemma last_last_n_snoc: "0 < n \<Longrightarrow> last (last_n n (xs @ [x])) = x"
  by (simp add: last_n_def)

text \<open>
  Claim C7. Without a Redis client (\<open>self.redis\<close> is \<open>None\<close>), \<open>create_session\<close> returns
  the session object (fresh id, the given or default config, status active, no messages)
  and there is still no store afterwards; \<open>get_session\<close> for that id, as for any id,
  returns \<open>None\<close>; \<open>delete_session\<close> returns \<open>False\<close>, \<open>_get_session_context\<close> the empty
  context (so the history slice is empty) and \<open>_update_session_context\<close> does nothing.
  None of these operations has a path that raises.
\<close>

theorem session_store_unavailable:
  "snd (create_session default_model uuid_hex None uid cfg) = None
   \<and> fst (create_session default_model uuid_hex None uid cfg) =
       \<lparr>session_id = ''session_'' @ take 12 uuid_hex, user_id = uid,
        config = (case cfg of None \<Rightarrow> default_session_config default_model | Some c \<Rightarrow> c),
        status = ''active'', message_count = 0\<rparr>
   \<and> get_session (snd (create_session default_model uuid_hex None uid cfg))
         (session_id (fst (create_session default_model uuid_hex None uid cfg))) = None
   \<and> get_session None sid = None
   \<and> delete_session None sid = (False, None)
   \<and> get_session_context None sid = None
   \<and> session_history (get_session_context None sid) = []
   \<and> update_session_context None sid query text results = None"
  by (simp add: create_session_def get_session_def delete_session_def get_session_context_def
        session_history_def update_session_context_def last_n_def Let_def)

text \<open>
  Claim C4, amended. Appending an exchange to an existing session and reading the session
  back gives a non-empty history whose last entry is the appended one, cut to the most
  recent entries: in \<open>AgentService\<close> the entry holds the query and the response as given
  and at most 20 entries are kept; in \<open>AgentServiceMVP\<close> the entry holds the query and,
  as response, the first 200 characters of the response followed by "...", and at most 10
  entries are kept.
\<close>

theorem append_exchange_round_trip:
  "(store (session_key sid) = Some (ttl, d) \<longrightarrow>
      (\<exists>h. get_session_context (update_session_context (Some store) sid query text results) sid
             = Some h
           \<and> h = last_n 20 ((case sd_context d of Some (Some old) \<Rightarrow> old | _ \<Rightarrow> [])
                              @ [\<lparr>ex_query = query, ex_response = text, tools_data = results\<rparr>])
           \<and> h \<noteq> []
           \<and> last h = \<lparr>ex_query = query, ex_response = text, tools_data = results\<rparr>
           \<and> length h \<le> 20))
   \<and> (sessions sid = Some sess \<longrightarrow>
      (\<exists>sess'. get_session_mvp (update_session_context_mvp sessions sid query text results) sid
                = Some sess'
           \<and> history_mvp sess' =
               last_n 10 (history_mvp sess
                          @ [\<lparr>query_mvp = query, response_mvp = take 200 text @ ''...'',
                               has_tool_data = (results \<noteq> [])\<rparr>])
           \<and> history_mvp sess' \<noteq> []
           \<and> last (history_mvp sess') =
               \<lparr>query_mvp = query, response_mvp = take 200 text @ ''...'',
                has_tool_data = (results \<noteq> [])\<rparr>
           \<and> length (history_mvp sess') \<le> 10))"
proof -
  have full: "store (session_key sid) = Some (ttl, d) \<longrightarrow>
      (\<exists>h. get_session_context (update_session_context (Some store) sid query text results) sid
             = Some h
           \<and> h = last_n 20 ((case sd_context d of Some (Some old) \<Rightarrow> old | _ \<Rightarrow> [])
                              @ [\<lparr>ex_query = query, ex_response = text, tools_data = results\<rparr>])
           \<and> h \<noteq> []
           \<and> last h = \<lparr>ex_query = query, ex_response = text, tools_data = results\<rparr>
           \<and> length h \<le> 20)"
    by (auto simp add: update_session_context_def get_session_context_def Let_def
          length_last_n last_n_snoc_nonempty last_last_n_snoc split: option.splits)
  have mvp: "sessions sid = Some sess \<longrightarrow>
      (\<exists>sess'. get_session_mvp (update_session_context_mvp sessions sid query text results) sid
                = Some sess'
           \<and> history_mvp sess' =
               last_n 10 (history_mvp sess
                          @ [\<lparr>query_mvp = query, response_mvp = take 200 text @ ''...'',
                               has_tool_data = (results \<noteq> [])\<rparr>])
           \<and> history_mvp sess' \<noteq> []
           \<and> last (history_mvp sess') =
               \<lparr>query_mvp = query, response_mvp = take 200 text @ ''...'',
                has_tool_data = (results \<noteq> [])\<rparr>
           \<and> length (history_mvp sess') \<le> 10)"
    by (simp add: update_session_context_mvp_def get_session_mvp_def
          length_last_n last_n_snoc_nonempty last_last_n_snoc)
  from full mvp show ?thesis by blast
qed

text \<open>
  The theorem at a freshly created session, in both services, with the exchange
  ("price of btc?", "ok").
\<close>

theorem append_exchange_round_trip_witness:
  "(\<exists>h. get_session_context
          (update_session_context
             (snd (create_session ''gemini-2.0-flash-exp'' ''0123456789abcdef'' (Some Map.empty)
                     None None))
             ''session_0123456789ab'' ''price of btc?'' ''ok'' [])
          ''session_0123456789ab'' = Some h
        \<and> h = [\<lparr>ex_query = ''price of btc?'', ex_response = ''ok'', tools_data = []\<rparr>])
   \<and> (\<exists>s. get_session_mvp
          (update_session_context_mvp
             (snd (create_session_mvp ''0123456789abcdef'' Map.empty None))
             ''session_0123456789ab'' ''price of btc?'' ''ok'' [])
          ''session_0123456789ab'' = Some s
        \<and> history_mvp s = [\<lparr>query_mvp = ''price of btc?'', response_mvp = ''ok...'',
                               has_tool_data = False\<rparr>])"
  using append_exchange_round_trip [of
      "[session_key ''session_0123456789ab'' \<mapsto>
          (session_ttl,
           \<lparr>sd_session_id = ''session_0123456789ab'', sd_user_id = None,
            sd_config = default_session_config ''gemini-2.0-flash-exp'',
            sd_status = ''active'', sd_message_count = 0, sd_context = Some None\<rparr>)]"
      "''session_0123456789ab''" session_ttl
      "\<lparr>sd_session_id = ''session_0123456789ab'', sd_user_id = None,
        sd_config = default_session_config ''gemini-2.0-flash-exp'',
        sd_status = ''active'', sd_message_count = 0, sd_context = Some None\<rparr>"
      "''price of btc?''" "''ok''" "[]"
      "snd (create_session_mvp ''0123456789abcdef'' Map.empty None)"
      "\<lparr>session_id_mvp = ''session_0123456789ab'', user_id_mvp = None,
        status_mvp = ''active'', message_count_mvp = 0, history_mvp = []\<rparr>"]
  by (auto simp add: create_session_def create_session_mvp_def Let_def last_n_def)

text \<open>
  The claim as stated fails in \<open>AgentServiceMVP\<close>: the response "ok" is read back as
  "ok...".
\<close>

theorem append_exchange_round_trip_counterexample:
  "get_session_mvp
     (update_session_context_mvp
        (snd (create_session_mvp ''0123456789abcdef'' Map.empty None))
        ''session_0123456789ab'' ''price of btc?'' ''ok'' [])
     ''session_0123456789ab''
   = Some \<lparr>session_id_mvp = ''session_0123456789ab'', user_id_mvp = None,
           status_mvp = ''active'', message_count_mvp = 1,
           history_mvp = [\<lparr>query_mvp = ''price of btc?'', response_mvp = ''ok...'',
                            has_tool_data = False\<rparr>]\<rparr>
   \<and> ''ok...'' \<noteq> ''ok''"
  by (simp add: get_session_mvp_def update_session_context_mvp_def create_session_mvp_def
        last_n_def Let_def)

section \<open>Properties of the tool dispatchers\<close>

text \<open>
  Claim C6, amended. \<open>MCPManager.call_tool\<close> raises \<open>MCPServerError\<close> carrying the server
  name, and returns the manager and the world untouched (no I/O was attempted), when the
  server is unknown or its status is not "running". For a running server it calls the
  transport once and either returns the result or, when the transport fails, raises
  \<open>MCPServerError\<close> carrying the server name after incrementing the server's error count.
  \<open>MCPManagerMVP.call_tool\<close> never raises: it always returns a dict, which for an unknown
  server is \<open>{"error": "Server <name> not available", "mock_response": True}\<close>, produced
  without generating a mock response.
\<close>

theorem call_tool_dispatch:
  "(servers m sn = None \<longrightarrow>
      call_tool transport m sn tn ps =
        (Inl (MCPServerError (''Server '' @ sn @ '' not found'') (Some sn)), m))
   \<and> (\<forall>srv. servers m sn = Some srv \<and> mcp_status srv \<noteq> ''running'' \<longrightarrow>
      call_tool transport m sn tn ps =
        (Inl (MCPServerError (''Server '' @ sn @ '' is not running'') (Some sn)), m))
   \<and> (\<forall>srv v w'. servers m sn = Some srv \<and> mcp_status srv = ''running''
         \<and> transport (world m) srv tn ps = (Inr v, w') \<longrightarrow>
      call_tool transport m sn tn ps = (Inr v, m\<lparr>world := w', io_calls := io_calls m + 1\<rparr>))
   \<and> (\<forall>srv e w'. servers m sn = Some srv \<and> mcp_status srv = ''running''
         \<and> transport (world m) srv tn ps = (Inl e, w') \<longrightarrow>
      call_tool transport m sn tn ps =
        (Inl (MCPServerError (''Tool call failed: '' @ str_exn e) (Some sn)),
         m\<lparr>servers := (servers m)(sn \<mapsto> srv\<lparr>mcp_error_count := mcp_error_count srv + 1\<rparr>),
           world := w', io_calls := io_calls m + 1\<rparr>))
   \<and> (mock sn = None \<longrightarrow>
      call_tool_mvp mock gen s sn tn ps =
        (PDict [(''error'', PStr (''Server '' @ sn @ '' not available'')),
                (''mock_response'', PBool True)], s))
   \<and> (\<exists>kvs s'. call_tool_mvp mock gen s sn tn ps = (PDict kvs, s'))"
proof -
  have mvp: "\<exists>kvs s'. call_tool_mvp mock gen s sn tn ps = (PDict kvs, s')"
    by (simp add: call_tool_mvp_def split: option.splits prod.splits sum.splits)
  then show ?thesis
    by (simp add: call_tool_def call_tool_mvp_def)
qed

text \<open>
  The theorem at a manager whose only server is \<open>feargreed\<close>: not running, unknown server,
  a call that returns, a call whose transport fails, and the MVP manager before
  \<open>initialize()\<close> (empty registry).
\<close>

theorem call_tool_dispatch_witness:
  "call_tool responding_transport (example_manager ''error'') ''feargreed''
       ''get_fear_greed_index'' []
     = (Inl (MCPServerError ''Server feargreed is not running'' (Some ''feargreed'')),
        example_manager ''error'')
   \<and> call_tool responding_transport (example_manager ''running'') ''cryptopanic'' ''get_news''
       [(''filter'', SParam ''hot'')]
     = (Inl (MCPServerError ''Server cryptopanic not found'' (Some ''cryptopanic'')),
        example_manager ''running'')
   \<and> call_tool responding_transport (example_manager ''running'') ''feargreed''
       ''get_fear_greed_index'' []
     = (Inr (PDict []), (example_manager ''running'')\<lparr>world := 1, io_calls := 1\<rparr>)
   \<and> fst (call_tool failing_transport (example_manager ''running'') ''feargreed''
       ''get_fear_greed_index'' [])
     = Inl (MCPServerError ''Tool call failed: HTTP tool call failed: 500'' (Some ''feargreed''))
   \<and> call_tool_mvp Map.empty (\<lambda>s sn tn ps. (Inr [], s)) () ''feargreed''
       ''get_fear_greed_index'' []
     = (PDict [(''error'', PStr ''Server feargreed not available''),
               (''mock_response'', PBool True)], ())"
  using call_tool_dispatch [of "example_manager ''error''" "''feargreed''" responding_transport
          "''get_fear_greed_index''" "[]" Map.empty "\<lambda>s sn tn ps. (Inr [], s)" "()"]
        call_tool_dispatch [of "example_manager ''running''" "''cryptopanic''"
          responding_transport "''get_news''" "[(''filter'', SParam ''hot'')]"
          Map.empty "\<lambda>s sn tn ps. (Inr [], s)" "()"]
        call_tool_dispatch [of "example_manager ''running''" "''feargreed''"
          responding_transport "''get_fear_greed_index''" "[]"
          Map.empty "\<lambda>s sn tn ps. (Inr [], s)" "()"]
        call_tool_dispatch [of "example_manager ''running''" "''feargreed''"
          failing_transport "''get_fear_greed_index''" "[]"
          Map.empty "\<lambda>s sn tn ps. (Inr [], s)" "()"]
  by (simp add: example_manager_def example_server_def responding_transport_def
        failing_transport_def)

text \<open>
  The claim as stated fails twice: the MVP manager answers an unknown server with a dict
  instead of raising, and \<open>MCPManager.call_tool\<close> on a known, running server raises when
  the transport fails instead of returning a result.
\<close>

theorem call_tool_dispatch_counterexample:
  "call_tool_mvp Map.empty (\<lambda>s sn tn ps. (Inr [], s)) () ''whaletracker'' ''get_whale_alerts''
     [(''min_value'', IParam 1000000)]
   = (PDict [(''error'', PStr ''Server whaletracker not available''),
             (''mock_response'', PBool True)], ())
   \<and> fst (call_tool failing_transport (example_manager ''running'') ''feargreed''
            ''get_fear_greed_index'' [])
   = Inl (MCPServerError ''Tool call failed: HTTP tool call failed: 500'' (Some ''feargreed''))"
  by (simp add: call_tool_mvp_def call_tool_def example_manager_def example_server_def
        failing_transport_def)

section \<open>Properties of the tool loops\<close>

lemma tool_loop_mvp_tools_used:
  "tools_used (fst (tool_loop_mvp call tis (st, s))) =
     tools_used st @ map entry_mvp (outcomes call tis s)"
proof (induction tis arbitrary: st s)
  case Nil
  then show ?case by simp
next
  case (Cons ti tis)
  obtain out s' where c: "call s (server ti) (tool ti) (tool_parameters ti) = (out, s')"
    by (cases "call s (server ti) (tool ti) (tool_parameters ti)") auto
  show ?case
    using Cons.IH [of "record_result_mvp st ti out" s']
    by (cases out) (simp_all add: c record_result_mvp_def entry_mvp_def)
qed

lemma tool_loop_mvp_tool_results:
  "tool_results (fst (tool_loop_mvp call tis (st, s))) =
     store_results tool_key_mvp (tool_results st) (outcomes call tis s)"
proof (induction tis arbitrary: st s)
  case Nil
  then show ?case by (simp add: store_results_def)
next
  case (Cons ti tis)
  obtain out s' where c: "call s (server ti) (tool ti) (tool_parameters ti) = (out, s')"
    by (cases "call s (server ti) (tool ti) (tool_parameters ti)") auto
  show ?case
    using Cons.IH [of "record_result_mvp st ti out" s']
    by (cases out) (simp_all add: c record_result_mvp_def store_results_def)
qed

lemma tool_loop_tools_used:
  "tools_used (fst (tool_loop call tis (st, s))) =
     tools_used st @
     map (\<lambda>p. \<lparr>tool_name = tool_call_name (fst p), parameters = tool_parameters (fst p),
                result = projr (snd p), execution_time_ms = Some 100, error = None\<rparr>)
       (filter (\<lambda>p. \<not> isl (snd p)) (outcomes call tis s))"
proof (induction tis arbitrary: st s)
  case Nil
  then show ?case by simp
next
  case (Cons ti tis)
  obtain out s' where c: "call s (server ti) (tool ti) (tool_parameters ti) = (out, s')"
    by (cases "call s (server ti) (tool ti) (tool_parameters ti)") auto
  show ?case
    using Cons.IH [of "record_result st ti out" s']
    by (cases out) (simp_all add: c record_result_def)
qed

lemma tool_loop_tool_results:
  "tool_results (fst (tool_loop call tis (st, s))) =
     store_results tool (tool_results st) (outcomes call tis s)"
proof (induction tis arbitrary: st s)
  case Nil
  then show ?case by (simp add: store_results_def)
next
  case (Cons ti tis)
  obtain out s' where c: "call s (server ti) (tool ti) (tool_parameters ti) = (out, s')"
    by (cases "call s (server ti) (tool ti) (tool_parameters ti)") auto
  show ?case
    using Cons.IH [of "record_result st ti out" s']
    by (cases out) (simp_all add: c record_result_def store_results_def)
qed

lemma length_outcomes: "length (outcomes call tis s) = length tis"
proof (induction tis arbitrary: s)
  case Nil
  then show ?case by simp
next
  case (Cons ti tis)
  then show ?case by (simp split: prod.splits)
qed

lemma map_fst_outcomes: "map fst (outcomes call tis s) = tis"
proof (induction tis arbitrary: s)
  case Nil
  then show ?case by simp
next
  case (Cons ti tis)
  then show ?case by (simp split: prod.splits)
qed

lemma store_results_sound:
  "(k, v) \<in> set (store_results key d outs) \<Longrightarrow>
   (k, v) \<in> set d \<or> (\<exists>ti. (ti, Inr v) \<in> set outs \<and> k = key ti)"
proof (induction outs arbitrary: d)
  case Nil
  then show ?case by (simp add: store_results_def)
next
  case (Cons p outs)
  obtain ti out where p: "p = (ti, out)" by (cases p) auto
  show ?case
  proof (cases out)
    case (Inl e)
    with Cons p show ?thesis by (fastforce simp: store_results_def)
  next
    case (Inr w)
    from Cons.prems have "(k, v) \<in> set (store_results key (AList.update (key ti) w d) outs)"
      by (simp add: store_results_def p Inr)
    from Cons.IH [OF this] show ?thesis
    proof
      assume "(k, v) \<in> set (AList.update (key ti) w d)"
      then have "(k, v) \<in> set d \<or> (k = key ti \<and> v = w)"
        by (induction d) (auto split: if_splits)
      then show ?thesis by (auto simp: p Inr)
    next
      assume "\<exists>ti. (ti, Inr v) \<in> set outs \<and> k = key ti"
      then show ?thesis by auto
    qed
  qed
qed

text \<open>
  Claim C2, amended. Whatever the dispatcher answers, a failing tool call does not stop
  the tool loop. In \<open>AgentServiceMVP.process_query\<close> the list \<open>tools_used\<close> has one entry
  per required tool, in order, whose \<open>error\<close> is \<open>str(e)\<close> for the calls that raised \<open>e\<close>
  and \<open>None\<close> for the others, and the method returns a response carrying that list
  whenever the text generation returns. In \<open>AgentService.process_query\<close> the loop keeps a
  \<open>ToolCall\<close> only for the calls that returned ("don't add failed tool to results"), each
  with \<open>error = None\<close>. In both, the tool-result mapping handed to the synthesizer is
  built from the calls that returned alone: every entry is the value of such a call under
  that call's key.
\<close>

theorem tool_failures_are_recorded:
  "length (tools_used (fst (tool_loop_mvp call tis (empty_loop_state, s)))) = length tis
   \<and> map error (tools_used (fst (tool_loop_mvp call tis (empty_loop_state, s)))) =
       map (\<lambda>p. case snd p of Inl e \<Rightarrow> Some (str_exn e) | Inr v \<Rightarrow> None) (outcomes call tis s)
   \<and> tool_results (fst (tool_loop_mvp call tis (empty_loop_state, s))) =
       store_results tool_key_mvp [] (outcomes call tis s)
   \<and> (\<forall>kv \<in> set (tool_results (fst (tool_loop_mvp call tis (empty_loop_state, s)))).
         \<exists>ti. (ti, Inr (snd kv)) \<in> set (outcomes call tis s) \<and> fst kv = tool_key_mvp ti)
   \<and> (\<forall>text. generate query (qtype (analyze_query_mvp query))
                (tool_results (fst (tool_loop_mvp call (tools (analyze_query_mvp query))
                                      (empty_loop_state, s)))) = Inr text \<longrightarrow>
         (\<exists>r. fst (process_query_mvp call generate uuid_hex (s, sessions) query sid) = Inr r
              \<and> r_response r = text
              \<and> r_tools_used r =
                  tools_used (fst (tool_loop_mvp call (tools (analyze_query_mvp query))
                                     (empty_loop_state, s)))))
   \<and> map tool_name (tools_used (fst (tool_loop call tis (empty_loop_state, s)))) =
       map (\<lambda>p. tool_call_name (fst p)) (filter (\<lambda>p. \<not> isl (snd p)) (outcomes call tis s))
   \<and> (\<forall>c \<in> set (tools_used (fst (tool_loop call tis (empty_loop_state, s)))). error c = None)
   \<and> tool_results (fst (tool_loop call tis (empty_loop_state, s))) =
       store_results tool [] (outcomes call tis s)
   \<and> (\<forall>kv \<in> set (tool_results (fst (tool_loop call tis (empty_loop_state, s)))).
         \<exists>ti. (ti, Inr (snd kv)) \<in> set (outcomes call tis s) \<and> fst kv = tool ti)"
proof -
  have a: "length (tools_used (fst (tool_loop_mvp call tis (empty_loop_state, s)))) = length tis"
    by (simp add: tool_loop_mvp_tools_used empty_loop_state_def length_outcomes)
  have b: "map error (tools_used (fst (tool_loop_mvp call tis (empty_loop_state, s)))) =
       map (\<lambda>p. case snd p of Inl e \<Rightarrow> Some (str_exn e) | Inr v \<Rightarrow> None) (outcomes call tis s)"
    by (simp add: tool_loop_mvp_tools_used empty_loop_state_def entry_mvp_def split: sum.splits)
  have c: "tool_results (fst (tool_loop_mvp call tis (empty_loop_state, s))) =
       store_results tool_key_mvp [] (outcomes call tis s)"
    by (simp add: tool_loop_mvp_tool_results empty_loop_state_def)
  have d: "\<forall>kv \<in> set (tool_results (fst (tool_loop_mvp call tis (empty_loop_state, s)))).
         \<exists>ti. (ti, Inr (snd kv)) \<in> set (outcomes call tis s) \<and> fst kv = tool_key_mvp ti"
    using store_results_sound [of _ _ tool_key_mvp "[]" "outcomes call tis s"]
    by (auto simp add: c)
  have e: "\<forall>text. generate query (qtype (analyze_query_mvp query))
                (tool_results (fst (tool_loop_mvp call (tools (analyze_query_mvp query))
                                      (empty_loop_state, s)))) = Inr text \<longrightarrow>
         (\<exists>r. fst (process_query_mvp call generate uuid_hex (s, sessions) query sid) = Inr r
              \<and> r_response r = text
              \<and> r_tools_used r =
                  tools_used (fst (tool_loop_mvp call (tools (analyze_query_mvp query))
                                     (empty_loop_state, s))))"
    by (simp add: process_query_mvp_def Let_def)
  have f: "map tool_name (tools_used (fst (tool_loop call tis (empty_loop_state, s)))) =
       map (\<lambda>p. tool_call_name (fst p)) (filter (\<lambda>p. \<not> isl (snd p)) (outcomes call tis s))"
    by (simp add: tool_loop_tools_used empty_loop_state_def)
  have g: "\<forall>c \<in> set (tools_used (fst (tool_loop call tis (empty_loop_state, s)))). error c = None"
    by (auto simp add: tool_loop_tools_used empty_loop_state_def)
  have h: "tool_results (fst (tool_loop call tis (empty_loop_state, s))) =
       store_results tool [] (outcomes call tis s)"
    by (simp add: tool_loop_tool_results empty_loop_state_def)
  have i: "\<forall>kv \<in> set (tool_results (fst (tool_loop call tis (empty_loop_state, s)))).
         \<exists>ti. (ti, Inr (snd kv)) \<in> set (outcomes call tis s) \<and> fst kv = tool ti"
    using store_results_sound [of _ _ tool "[]" "outcomes call tis s"]
    by (auto simp add: h)
  from a b c d e f g h i show ?thesis by blast
qed

text \<open>
  The theorem at the two tools of the query "sentiment" with a manager that knows
  \<open>feargreed\<close> only: the call to \<open>cryptopanic\<close> fails.
\<close>

theorem tool_failures_are_recorded_witness:
  "map error (tools_used (fst (tool_loop_mvp (call_tool responding_transport)
         [fear_greed_index, news ''rising''] (empty_loop_state, example_manager ''running''))))
     = [None, Some ''Server cryptopanic not found'']
   \<and> tool_results (fst (tool_loop_mvp (call_tool responding_transport)
         [fear_greed_index, news ''rising''] (empty_loop_state, example_manager ''running'')))
     = [(''get_fear_greed_index'', PDict [])]
   \<and> (\<exists>r. fst (process_query_mvp (call_tool responding_transport) (\<lambda>q t res. Inr ''report'')
                 ''0123456789abcdef'' (example_manager ''running'', Map.empty)
                 ''sentiment'' None) = Inr r
          \<and> r_response r = ''report''
          \<and> map error (r_tools_used r) = [None, Some ''Server cryptopanic not found''])
   \<and> map tool_name (tools_used (fst (tool_loop (call_tool responding_transport)
         [fear_greed_index, news ''rising''] (empty_loop_state, example_manager ''running''))))
     = [''feargreed.get_fear_greed_index'']"
proof -
  have o: "outcomes (call_tool responding_transport) [fear_greed_index, news ''rising'']
             (example_manager ''running'')
           = [(fear_greed_index, Inr (PDict [])),
              (news ''rising'',
               Inl (MCPServerError ''Server cryptopanic not found'' (Some ''cryptopanic'')))]"
    by (simp add: call_tool_def example_manager_def example_server_def responding_transport_def
          fear_greed_index_def news_def)
  have q: "tools (analyze_query_mvp ''sentiment'') = [fear_greed_index, news ''rising'']"
    by code_simp
  note t = tool_failures_are_recorded [of "call_tool responding_transport"
      "[fear_greed_index, news ''rising'']" "example_manager ''running''"
      "\<lambda>q t res. Inr ''report''" "''sentiment''" "''0123456789abcdef''" Map.empty None]
  have k: "tool_key_mvp fear_greed_index = ''get_fear_greed_index''"
    by (simp add: tool_key_mvp_def fear_greed_index_def)
  have n: "tool_call_name fear_greed_index = ''feargreed.get_fear_greed_index''"
    by (simp add: tool_call_name_def fear_greed_index_def)
  have e1: "map error (tools_used (fst (tool_loop_mvp (call_tool responding_transport)
         [fear_greed_index, news ''rising''] (empty_loop_state, example_manager ''running''))))
     = [None, Some ''Server cryptopanic not found'']"
    using t [THEN conjunct2, THEN conjunct1] unfolding o by simp
  have e2: "tool_results (fst (tool_loop_mvp (call_tool responding_transport)
         [fear_greed_index, news ''rising''] (empty_loop_state, example_manager ''running'')))
     = [(''get_fear_greed_index'', PDict [])]"
    using t [THEN conjunct2, THEN conjunct2, THEN conjunct1] unfolding o
    by (simp add: store_results_def k)
  have "\<exists>r. fst (process_query_mvp (call_tool responding_transport) (\<lambda>q t res. Inr ''report'')
                 ''0123456789abcdef'' (example_manager ''running'', Map.empty)
                 ''sentiment'' None) = Inr r
          \<and> r_response r = ''report''
          \<and> r_tools_used r =
               tools_used (fst (tool_loop_mvp (call_tool responding_transport)
                 (tools (analyze_query_mvp ''sentiment''))
                 (empty_loop_state, example_manager ''running'')))"
    using t [THEN conjunct2, THEN conjunct2, THEN conjunct2, THEN conjunct2, THEN conjunct1]
    by simp
  then have e3: "\<exists>r. fst (process_query_mvp (call_tool responding_transport)
                 (\<lambda>q t res. Inr ''report'')
                 ''0123456789abcdef'' (example_manager ''running'', Map.empty)
                 ''sentiment'' None) = Inr r
          \<and> r_response r = ''report''
          \<and> map error (r_tools_used r) = [None, Some ''Server cryptopanic not found'']"
    using e1 by (auto simp add: q)
  have e4: "map tool_name (tools_used (fst (tool_loop (call_tool responding_transport)
         [fear_greed_index, news ''rising''] (empty_loop_state, example_manager ''running''))))
     = [''feargreed.get_fear_greed_index'']"
    using t [THEN conjunct2, THEN conjunct2, THEN conjunct2, THEN conjunct2, THEN conjunct2,
             THEN conjunct1]
    unfolding o by (simp add: n)
  from e1 e2 e3 e4 show ?thesis by blast
qed

text \<open>
  The claim as stated fails in \<open>AgentService\<close>: with two required tools of which one
  fails, \<open>tools_used\<close> has one entry, and no entry has its \<open>error\<close> set.
\<close>

theorem tool_failures_are_recorded_counterexample:
  "analyze_query ''sentiment'' =
     Inr \<lparr>qtype = NEWS_SENTIMENT, tools = [fear_greed_index, news ''rising''], confidence = 8/10\<rparr>
   \<and> fst (call_tool responding_transport (example_manager ''running'') ''cryptopanic''
            ''get_news'' [(''filter'', SParam ''rising'')])
       = Inl (MCPServerError ''Server cryptopanic not found'' (Some ''cryptopanic''))
   \<and> tools_used (fst (tool_loop (call_tool responding_transport)
         [fear_greed_index, news ''rising''] (empty_loop_state, example_manager ''running'')))
       = [\<lparr>tool_name = ''feargreed.get_fear_greed_index'', parameters = [],
            result = PDict [], execution_time_ms = Some 100, error = None\<rparr>]"
proof -
  have a: "analyze_query ''sentiment'' =
     Inr \<lparr>qtype = NEWS_SENTIMENT, tools = [fear_greed_index, news ''rising''], confidence = 8/10\<rparr>"
    by code_simp
  have b: "fst (call_tool responding_transport (example_manager ''running'') ''cryptopanic''
            ''get_news'' [(''filter'', SParam ''rising'')])
       = Inl (MCPServerError ''Server cryptopanic not found'' (Some ''cryptopanic''))"
    by (simp add: call_tool_def example_manager_def)
  have c: "tools_used (fst (tool_loop (call_tool responding_transport)
         [fear_greed_index, news ''rising''] (empty_loop_state, example_manager ''running'')))
       = [\<lparr>tool_name = ''feargreed.get_fear_greed_index'', parameters = [],
            result = PDict [], execution_time_ms = Some 100, error = None\<rparr>]"
    by (simp add: call_tool_def example_manager_def example_server_def responding_transport_def
          fear_greed_index_def news_def record_result_def empty_loop_state_def
          tool_call_name_def)
  from a b c show ?thesis by blast
qed

lemma outcomes_unknown_servers:
  "\<forall>ti \<in> set tis. mock (server ti) = None \<Longrightarrow>
   outcomes (mvp_dispatcher mock gen) tis s =
     map (\<lambda>ti. (ti, Inr (unknown_server_result (server ti)))) tis"
  by (induction tis)
     (simp_all add: mvp_dispatcher_def call_tool_mvp_def unknown_server_result_def)

lemma successful_tools_all_ok:
  "\<forall>c \<in> set cs. error c = None \<Longrightarrow> successful_tools cs = length cs"
  by (induction cs) (simp_all add: successful_tools_def)

text \<open>
  Claim C10. In the MVP pipeline a tool invocation that names a server absent from the
  manager's registry does not raise: \<open>MCPManagerMVP.call_tool\<close> returns the dict
  \<open>{"error": .., "mock_response": True}\<close>; the loop of \<open>process_query\<close> records it as a
  \<open>ToolCall\<close> with that dict as result and \<open>error = None\<close>, which the confidence
  computation counts as successful. When every required server is absent, the response
  lists every call with \<open>error = None\<close> and its confidence is that of a full success.
\<close>

theorem unknown_server_counts_as_success:
  "(mock sn = None \<longrightarrow>
      call_tool_mvp mock gen s sn tn ps =
        (PDict [(''error'', PStr (''Server '' @ sn @ '' not available'')),
                (''mock_response'', PBool True)], s))
   \<and> (mock (server ti) = None \<longrightarrow>
      tool_loop_mvp (mvp_dispatcher mock gen) [ti] (st, s) =
        (\<lparr>tools_used = tools_used st @
            [\<lparr>tool_name = tool_call_name ti, parameters = tool_parameters ti,
              result = unknown_server_result (server ti), execution_time_ms = Some 50,
              error = None\<rparr>],
          data_sources = data_sources st @ [data_source ti],
          tool_results =
            AList.update (tool_key_mvp ti) (unknown_server_result (server ti)) (tool_results st)\<rparr>,
         s)
      \<and> successful_tools (tools_used (fst (tool_loop_mvp (mvp_dispatcher mock gen) [ti] (st, s))))
          = successful_tools (tools_used st) + 1)
   \<and> ((\<forall>t \<in> set (tools (analyze_query_mvp query)). mock (server t) = None)
        \<and> generate query (qtype (analyze_query_mvp query))
             (tool_results (fst (tool_loop_mvp (mvp_dispatcher mock gen)
                (tools (analyze_query_mvp query)) (empty_loop_state, s)))) = Inr text \<longrightarrow>
      (\<exists>r. fst (process_query_mvp (mvp_dispatcher mock gen) generate uuid_hex (s, sessions)
                  query sid) = Inr r
           \<and> map error (r_tools_used r) =
               replicate (length (tools (analyze_query_mvp query))) None
           \<and> map result (r_tools_used r) =
               map (\<lambda>t. unknown_server_result (server t)) (tools (analyze_query_mvp query))
           \<and> successful_tools (r_tools_used r) = length (tools (analyze_query_mvp query))
           \<and> r_confidence_score r =
               (if tools (analyze_query_mvp query) = [] then 7/10
                else min (9/10) (type_confidence_mvp (qtype (analyze_query_mvp query))))))"
proof -
  have a: "mock sn = None \<longrightarrow>
      call_tool_mvp mock gen s sn tn ps =
        (PDict [(''error'', PStr (''Server '' @ sn @ '' not available'')),
                (''mock_response'', PBool True)], s)"
    by (simp add: call_tool_mvp_def)
  have b: "mock (server ti) = None \<longrightarrow>
      tool_loop_mvp (mvp_dispatcher mock gen) [ti] (st, s) =
        (\<lparr>tools_used = tools_used st @
            [\<lparr>tool_name = tool_call_name ti, parameters = tool_parameters ti,
              result = unknown_server_result (server ti), execution_time_ms = Some 50,
              error = None\<rparr>],
          data_sources = data_sources st @ [data_source ti],
          tool_results =
            AList.update (tool_key_mvp ti) (unknown_server_result (server ti)) (tool_results st)\<rparr>,
         s)
      \<and> successful_tools (tools_used (fst (tool_loop_mvp (mvp_dispatcher mock gen) [ti] (st, s))))
          = successful_tools (tools_used st) + 1"
    by (simp add: mvp_dispatcher_def call_tool_mvp_def unknown_server_result_def
          record_result_mvp_def successful_tools_def)
  have c: "(\<forall>t \<in> set (tools (analyze_query_mvp query)). mock (server t) = None)
        \<and> generate query (qtype (analyze_query_mvp query))
             (tool_results (fst (tool_loop_mvp (mvp_dispatcher mock gen)
                (tools (analyze_query_mvp query)) (empty_loop_state, s)))) = Inr text \<longrightarrow>
      (\<exists>r. fst (process_query_mvp (mvp_dispatcher mock gen) generate uuid_hex (s, sessions)
                  query sid) = Inr r
           \<and> map error (r_tools_used r) =
               replicate (length (tools (analyze_query_mvp query))) None
           \<and> map result (r_tools_used r) =
               map (\<lambda>t. unknown_server_result (server t)) (tools (analyze_query_mvp query))
           \<and> successful_tools (r_tools_used r) = length (tools (analyze_query_mvp query))
           \<and> r_confidence_score r =
               (if tools (analyze_query_mvp query) = [] then 7/10
                else min (9/10) (type_confidence_mvp (qtype (analyze_query_mvp query)))))"
  proof
    let ?tis = "tools (analyze_query_mvp query)"
    let ?used = "tools_used (fst (tool_loop_mvp (mvp_dispatcher mock gen) ?tis
                                     (empty_loop_state, s)))"
    assume h: "(\<forall>t \<in> set ?tis. mock (server t) = None)
        \<and> generate query (qtype (analyze_query_mvp query))
             (tool_results (fst (tool_loop_mvp (mvp_dispatcher mock gen) ?tis
                (empty_loop_state, s)))) = Inr text"
    then have o: "outcomes (mvp_dispatcher mock gen) ?tis s =
        map (\<lambda>ti. (ti, Inr (unknown_server_result (server ti)))) ?tis"
      using outcomes_unknown_servers [of ?tis mock gen s] by blast
    have u: "?used = map (\<lambda>t. entry_mvp (t, Inr (unknown_server_result (server t)))) ?tis"
      by (simp add: tool_loop_mvp_tools_used o empty_loop_state_def comp_def)
    have e: "map error ?used = replicate (length ?tis) None"
      by (simp add: u entry_mvp_def comp_def map_replicate_const)
    have r: "map result ?used = map (\<lambda>t. unknown_server_result (server t)) ?tis"
      by (simp add: u entry_mvp_def comp_def)
    have n: "successful_tools ?used = length ?tis"
      using successful_tools_all_ok [of ?used] by (simp add: u entry_mvp_def)
    have k: "calculate_confidence_score_mvp ?used (int (length ?tis)) (qtype (analyze_query_mvp query))
             = (if ?tis = [] then 7/10
                else min (9/10) (type_confidence_mvp (qtype (analyze_query_mvp query))))"
      by (simp add: calculate_confidence_score_mvp_def tool_success_rate_def n)
    from h have "fst (process_query_mvp (mvp_dispatcher mock gen) generate uuid_hex (s, sessions)
                  query sid) =
       Inr \<lparr>r_id = ''resp_'' @ take 8 uuid_hex, r_response = text, r_session_id = sid,
             r_query_type = Some (qtype (analyze_query_mvp query)),
             r_confidence_score = calculate_confidence_score_mvp ?used (int (length ?tis))
                                    (qtype (analyze_query_mvp query)),
             r_tools_used = ?used,
             r_data_sources = data_sources (fst (tool_loop_mvp (mvp_dispatcher mock gen) ?tis
                                     (empty_loop_state, s))),
             r_token_usage = [(''prompt_tokens'', 150), (''completion_tokens'', 300),
                              (''total_tokens'', 450)],
             r_follow_up_suggestions =
               Some (generate_follow_ups_mvp (qtype (analyze_query_mvp query)))\<rparr>"
      by (simp add: process_query_mvp_def Let_def)
    then show "\<exists>r. fst (process_query_mvp (mvp_dispatcher mock gen) generate uuid_hex (s, sessions)
                  query sid) = Inr r
           \<and> map error (r_tools_used r) = replicate (length ?tis) None
           \<and> map result (r_tools_used r) = map (\<lambda>t. unknown_server_result (server t)) ?tis
           \<and> successful_tools (r_tools_used r) = length ?tis
           \<and> r_confidence_score r =
               (if ?tis = [] then 7/10
                else min (9/10) (type_confidence_mvp (qtype (analyze_query_mvp query))))"
      using e r n k by simp
  qed
  from a b c show ?thesis by blast
qed

text \<open>
  The theorem at the manager before \<open>initialize()\<close> (empty registry) and the query
  "What's the price of BTC?": two calls, both counted as successful, confidence 0.75.
\<close>

theorem unknown_server_counts_as_success_witness:
  "call_tool_mvp Map.empty (\<lambda>s sn tn ps. (Inr [], s)) () ''coingecko'' ''get_coin_price''
      [(''symbol'', SParam ''BTC'')]
     = (PDict [(''error'', PStr ''Server coingecko not available''),
               (''mock_response'', PBool True)], ())
   \<and> successful_tools (tools_used (fst (tool_loop_mvp
         (mvp_dispatcher Map.empty (\<lambda>s sn tn ps. (Inr [], s))) [coin_price ''BTC'']
         (empty_loop_state, ())))) = 1
   \<and> (\<exists>r. fst (process_query_mvp (mvp_dispatcher Map.empty (\<lambda>s sn tn ps. (Inr [], s)))
                 (\<lambda>q t res. Inr ''report'') ''0123456789abcdef'' ((), Map.empty)
                 ''What's the price of BTC?'' None) = Inr r
          \<and> map error (r_tools_used r) = [None, None]
          \<and> successful_tools (r_tools_used r) = 2
          \<and> r_confidence_score r = 75/100)"
proof -
  note t = unknown_server_counts_as_success [of Map.empty "''coingecko''"
      "\<lambda>s sn tn ps. (Inr [], s)" "()" "''get_coin_price''" "[(''symbol'', SParam ''BTC'')]"
      "coin_price ''BTC''" empty_loop_state "''What's the price of BTC?''"
      "\<lambda>q t res. Inr ''report''" "''report''" "''0123456789abcdef''" Map.empty None]
  have q: "analyze_query_mvp ''What's the price of BTC?'' =
           \<lparr>qtype = PRICE_PREDICTION, tools = [coin_price ''BTC'', ticker ''BTC/USDT''],
            confidence = 8/10\<rparr>"
    by code_simp
  have a: "call_tool_mvp Map.empty (\<lambda>s sn tn ps. (Inr [], s)) () ''coingecko'' ''get_coin_price''
      [(''symbol'', SParam ''BTC'')]
     = (PDict [(''error'', PStr ''Server coingecko not available''),
               (''mock_response'', PBool True)], ())"
    using t [THEN conjunct1] by simp
  have b: "successful_tools (tools_used (fst (tool_loop_mvp
         (mvp_dispatcher Map.empty (\<lambda>s sn tn ps. (Inr [], s))) [coin_price ''BTC'']
         (empty_loop_state, ())))) = 1"
    using t [THEN conjunct2, THEN conjunct1]
    by (simp add: empty_loop_state_def successful_tools_def)
  have c: "\<exists>r. fst (process_query_mvp (mvp_dispatcher Map.empty (\<lambda>s sn tn ps. (Inr [], s)))
                 (\<lambda>q t res. Inr ''report'') ''0123456789abcdef'' ((), Map.empty)
                 ''What's the price of BTC?'' None) = Inr r
          \<and> map error (r_tools_used r) = [None, None]
          \<and> successful_tools (r_tools_used r) = 2
          \<and> r_confidence_score r = 75/100"
    using t [THEN conjunct2, THEN conjunct2] unfolding q by auto
  from a b c show ?thesis by blast
qed

lemma map_of_store_results:
  "map_of (store_results key d outs) k = last_result key k (map_of d k) outs"
proof (induction outs arbitrary: d)
  case Nil
  then show ?case by (simp add: store_results_def last_result_def)
next
  case (Cons p outs)
  show ?case
  proof (cases "snd p")
    case (Inl e)
    with Cons [of d] show ?thesis by (simp add: store_results_def last_result_def)
  next
    case (Inr v)
    with Cons [of "AList.update (key (fst p)) v d"] show ?thesis
      by (simp add: store_results_def last_result_def update_conv')
  qed
qed

lemma last_result_present:
  "(ti, Inr v) \<in> set outs \<Longrightarrow> \<exists>w. last_result key (key ti) start outs = Some w"
proof (induction outs arbitrary: start)
  case Nil
  then show ?case by simp
next
  case (Cons p outs)
  from Cons.prems have "p = (ti, Inr v) \<or> (ti, Inr v) \<in> set outs" by auto
  then show ?case
  proof
    assume "(ti, Inr v) \<in> set outs"
    from Cons.IH [OF this] show ?thesis by (simp add: last_result_def)
  next
    assume p: "p = (ti, Inr v)"
    have "\<And>st. \<exists>w. last_result key (key ti) (Some st) outs = Some w"
    proof (induction outs)
      case Nil
      then show ?case by (simp add: last_result_def)
    next
      case (Cons q qs)
      then show ?case by (cases "snd q") (simp_all add: last_result_def)
    qed
    then show ?thesis by (simp add: last_result_def p)
  qed
qed
text \<open>
  Claim C8, amended. The MVP loop stores a \<open>get_coin_price\<close> result under the composite
  key \<open>get_coin_price_<symbol>\<close>: invocations for different symbols have different keys,
  and the key of every invocation that returned is present in the mapping, so price
  lookups for two symbols both appear. Every key holds the result of the last invocation
  that returned under it. \<open>AgentService\<close> has no composite keys: its mapping holds, for
  each tool name, the result of the last invocation of that tool that returned.
\<close>

theorem tool_result_keys:
  "(tool ti = ''get_coin_price'' \<and> tool tj = ''get_coin_price''
      \<and> map_of (tool_parameters ti) ''symbol'' = Some (SParam a)
      \<and> map_of (tool_parameters tj) ''symbol'' = Some (SParam b) \<and> a \<noteq> b \<longrightarrow>
        tool_key_mvp ti = ''get_coin_price_'' @ a \<and> tool_key_mvp tj = ''get_coin_price_'' @ b
        \<and> tool_key_mvp ti \<noteq> tool_key_mvp tj)
   \<and> ((ti, Inr v) \<in> set (outcomes call tis s) \<longrightarrow>
        (\<exists>w. map_of (tool_results (fst (tool_loop_mvp call tis (empty_loop_state, s))))
               (tool_key_mvp ti) = Some w))
   \<and> map_of (tool_results (fst (tool_loop_mvp call tis (empty_loop_state, s)))) k
       = last_result tool_key_mvp k None (outcomes call tis s)
   \<and> map_of (tool_results (fst (tool_loop call tis (empty_loop_state, s)))) k
       = last_result tool k None (outcomes call tis s)"
proof -
  have a: "tool ti = ''get_coin_price'' \<and> tool tj = ''get_coin_price''
      \<and> map_of (tool_parameters ti) ''symbol'' = Some (SParam a)
      \<and> map_of (tool_parameters tj) ''symbol'' = Some (SParam b) \<and> a \<noteq> b \<longrightarrow>
        tool_key_mvp ti = ''get_coin_price_'' @ a \<and> tool_key_mvp tj = ''get_coin_price_'' @ b
        \<and> tool_key_mvp ti \<noteq> tool_key_mvp tj"
    by (simp add: tool_key_mvp_def)
  have c: "map_of (tool_results (fst (tool_loop_mvp call tis (empty_loop_state, s)))) k
       = last_result tool_key_mvp k None (outcomes call tis s)" for k
    by (simp add: tool_loop_mvp_tool_results map_of_store_results empty_loop_state_def)
  have b: "(ti, Inr v) \<in> set (outcomes call tis s) \<longrightarrow>
        (\<exists>w. map_of (tool_results (fst (tool_loop_mvp call tis (empty_loop_state, s))))
               (tool_key_mvp ti) = Some w)"
    using last_result_present [of ti v "outcomes call tis s" tool_key_mvp None]
    by (simp add: c)
  have d: "map_of (tool_results (fst (tool_loop call tis (empty_loop_state, s)))) k
       = last_result tool k None (outcomes call tis s)"
    by (simp add: tool_loop_tool_results map_of_store_results empty_loop_state_def)
  from a b c [of k] d show ?thesis by blast
qed

text \<open>
  The theorem at price lookups for BTC and ETH in the MVP loop, with a dispatcher that
  echoes the parameters.
\<close>

theorem tool_result_keys_witness:
  "tool_results (fst (tool_loop_mvp echo_dispatcher
         [coin_price ''BTC'', coin_price ''ETH''] (empty_loop_state, ())))
       = [(''get_coin_price_BTC'', PDict [(''symbol'', PStr ''BTC'')]),
          (''get_coin_price_ETH'', PDict [(''symbol'', PStr ''ETH'')])]
   \<and> tool_key_mvp (coin_price ''BTC'') \<noteq> tool_key_mvp (coin_price ''ETH'')
   \<and> (\<exists>w. map_of (tool_results (fst (tool_loop_mvp echo_dispatcher
         [coin_price ''BTC'', coin_price ''ETH''] (empty_loop_state, ()))))
         (tool_key_mvp (coin_price ''BTC'')) = Some w)"
proof -
  have o: "outcomes echo_dispatcher [coin_price ''BTC'', coin_price ''ETH''] ()
           = [(coin_price ''BTC'', Inr (PDict [(''symbol'', PStr ''BTC'')])),
              (coin_price ''ETH'', Inr (PDict [(''symbol'', PStr ''ETH'')]))]"
    by (simp add: echo_dispatcher_def coin_price_def)
  note t = tool_result_keys [of "coin_price ''BTC''" "coin_price ''ETH''" "''BTC''" "''ETH''"
      "PDict [(''symbol'', PStr ''BTC'')]" echo_dispatcher
      "[coin_price ''BTC'', coin_price ''ETH'']" "()" "''get_coin_price_BTC''"]
  have a: "tool_results (fst (tool_loop_mvp echo_dispatcher
         [coin_price ''BTC'', coin_price ''ETH''] (empty_loop_state, ())))
       = [(''get_coin_price_BTC'', PDict [(''symbol'', PStr ''BTC'')]),
          (''get_coin_price_ETH'', PDict [(''symbol'', PStr ''ETH'')])]"
    by code_simp
  have b: "tool_key_mvp (coin_price ''BTC'') \<noteq> tool_key_mvp (coin_price ''ETH'')"
    using t [THEN conjunct1] by (simp add: coin_price_def)
  have c: "\<exists>w. map_of (tool_results (fst (tool_loop_mvp echo_dispatcher
         [coin_price ''BTC'', coin_price ''ETH''] (empty_loop_state, ()))))
         (tool_key_mvp (coin_price ''BTC'')) = Some w"
    using t [THEN conjunct2, THEN conjunct1] unfolding o by simp
  from a b c show ?thesis by blast
qed

text \<open>
  The claim as stated fails on the query "sentiment news", which requires
  \<open>cryptopanic.get_news\<close> twice, with the filters "rising" and "hot": in both services the
  two invocations share the key \<open>get_news\<close>, and the mapping keeps only the result of the
  second.
\<close>

theorem tool_result_keys_counterexample:
  "tools (analyze_query_mvp ''sentiment news'') = [fear_greed_index, news ''rising'', news ''hot'']
   \<and> tool_parameters (news ''rising'') \<noteq> tool_parameters (news ''hot'')
   \<and> tool_key_mvp (news ''rising'') = ''get_news''
   \<and> tool_key_mvp (news ''hot'') = ''get_news''
   \<and> tool_results (fst (tool_loop_mvp echo_dispatcher
         (tools (analyze_query_mvp ''sentiment news'')) (empty_loop_state, ())))
       = [(''get_fear_greed_index'', PDict []),
          (''get_news'', PDict [(''filter'', PStr ''hot'')])]
   \<and> analyze_query ''sentiment news'' =
       Inr \<lparr>qtype = NEWS_SENTIMENT, tools = [fear_greed_index, news ''rising'', news ''hot''],
            confidence = 8/10\<rparr>
   \<and> tool_results (fst (tool_loop echo_dispatcher
         [fear_greed_index, news ''rising'', news ''hot''] (empty_loop_state, ())))
       = [(''get_fear_greed_index'', PDict []),
          (''get_news'', PDict [(''filter'', PStr ''hot'')])]"
  by code_simp

end
